theory Spec2Isabelle
  imports Main "HOL-Library.Multiset"
begin

section \<open>Data model (src/db/schema.ts)\<close>

text \<open>
  The two tables of the schema. A row of \<open>decksTable\<close> and a row of \<open>cardsTable\<close> are
  records with the columns of the schema; the column \<open>id\<close> is written \<open>deck_id\<close> and
  \<open>card_id\<close> (\<open>id\<close> is the identity function of HOL), and the other columns carry the
  same prefix. A nullable \<open>text\<close> column is a \<open>string option\<close>. Timestamps are natural
  numbers (milliseconds of a clock that the caller supplies as \<open>now\<close>). A \<open>string\<close> stands
  for a JavaScript string, one \<open>char\<close> for each code unit, so \<open>length\<close> is the
  \<open>.length\<close> that the zod schemas compare.
\<close>

record deck =
  deck_id :: int
  deck_userId :: string
  deck_name :: string
  deck_description :: "string option"
  deck_createdAt :: nat
  deck_updatedAt :: nat

record card =
  card_id :: int
  card_deckId :: int
  card_front :: string
  card_back :: string
  card_createdAt :: nat
  card_updatedAt :: nat

text \<open>
  The database: the rows of both tables and the two identity sequences
  (\<open>generatedAlwaysAsIdentity\<close>) from which inserted rows take their \<open>id\<close>.
\<close>

record db =
  decksTable :: "deck list"
  cardsTable :: "card list"
  decks_id_seq :: int
  cards_id_seq :: int

text \<open>What a query function or a server action throws. A \<open>ZodError\<close> carries the
  messages of its issues, of which there is at least one: the first, and the others.\<close>

datatype exn =
    ZodError string "string list"
  | Error string
  | TypeError string
  | DatabaseError string

text \<open>
  The \<open>id\<close> and \<open>deckId\<close> columns are \<open>integer()\<close>, the 32-bit integers of the
  database. A statement that compares such a column with a parameter outside that range is
  refused by the database, and the query function, which catches nothing, throws. (The
  database's message also quotes the value.)
\<close>

definition int4 :: "int \<Rightarrow> bool" where
  "int4 v = (- 2147483648 \<le> v \<and> v \<le> 2147483647)"

definition out_of_range :: exn where
  "out_of_range = DatabaseError ''value is out of range for type integer''"

section \<open>Deck queries (src/db/queries/deck-queries.ts)\<close>

definition getUserDecks :: "db \<Rightarrow> string \<Rightarrow> deck list" where
  "getUserDecks s userId = filter (\<lambda>d. deck_userId d = userId) (decksTable s)"

definition getUserDeckCount :: "db \<Rightarrow> string \<Rightarrow> int" where
  "getUserDeckCount s userId =
     int (length (filter (\<lambda>d. deck_userId d = userId) (decksTable s)))"

text \<open>\<open>const [deck] = await db.select()...where(and(eq(decksTable.id, deckId), ...));
  return deck || null\<close>: the first selected row, or \<open>null\<close> (here \<open>None\<close>) when no
  row is selected; the statement is refused when \<open>deckId\<close> is not a 32-bit integer.\<close>

definition getDeckById :: "db \<Rightarrow> int \<Rightarrow> string \<Rightarrow> exn + deck option" where
  "getDeckById s deckId userId =
     (if int4 deckId
      then Inr (case filter (\<lambda>d. deck_id d = deckId \<and> deck_userId d = userId) (decksTable s) of
                  [] \<Rightarrow> None
                | deck # _ \<Rightarrow> Some deck)
      else Inl out_of_range)"

text \<open>\<open>orderBy(desc(cardsTable.updatedAt))\<close>: a stable sort on the negated timestamp.\<close>

definition getDeckCards :: "db \<Rightarrow> int \<Rightarrow> string \<Rightarrow> exn + card list option" where
  "getDeckCards s deckId userId =
     (case getDeckById s deckId userId of
        Inl e \<Rightarrow> Inl e
      | Inr None \<Rightarrow> Inr None
      | Inr (Some deck) \<Rightarrow>
          Inr (Some (sort_key (\<lambda>c. - int (card_updatedAt c))
                       (filter (\<lambda>c. card_deckId c = deckId) (cardsTable s)))))"

text \<open>
  \<open>db.insert(decksTable).values({userId, name, description}).returning()\<close>: one new row,
  its \<open>id\<close> taken from the identity sequence, an absent \<open>description\<close> stored as NULL,
  both timestamps \<open>defaultNow()\<close>. The function returns the first returned row.
\<close>

record deck_data =
  data_name :: string
  data_description :: "string option"

definition createDeckForUser :: "db \<Rightarrow> string \<Rightarrow> deck_data \<Rightarrow> nat \<Rightarrow> deck option \<times> db" where
  "createDeckForUser s userId data now =
     (let row = \<lparr>deck_id = decks_id_seq s, deck_userId = userId, deck_name = data_name data,
                  deck_description = data_description data,
                  deck_createdAt = now, deck_updatedAt = now\<rparr>;
          returning = [row]
      in (case returning of [] \<Rightarrow> None | deck # _ \<Rightarrow> Some deck,
          s\<lparr>decksTable := decksTable s @ [row], decks_id_seq := decks_id_seq s + 1\<rparr>))"

text \<open>
  \<open>db.update(decksTable).set({name, description, updatedAt: new Date()})
  .where(eq(decksTable.id, deckId)).returning()\<close>. A key of \<open>set\<close> whose value is
  \<open>undefined\<close> is left out of the statement, so an absent \<open>description\<close> keeps the
  column as it is.
\<close>

definition set_deck :: "deck_data \<Rightarrow> nat \<Rightarrow> deck \<Rightarrow> deck" where
  "set_deck data now d =
     d\<lparr>deck_name := data_name data,
       deck_description :=
         (case data_description data of None \<Rightarrow> deck_description d | Some x \<Rightarrow> Some x),
       deck_updatedAt := now\<rparr>"

definition updateDeckForUser ::
  "db \<Rightarrow> int \<Rightarrow> string \<Rightarrow> deck_data \<Rightarrow> nat \<Rightarrow> exn + (deck option \<times> db)" where
  "updateDeckForUser s deckId userId data now =
     (case getDeckById s deckId userId of
        Inl e \<Rightarrow> Inl e
      | Inr None \<Rightarrow> Inl (Error ''Deck not found or unauthorized'')
      | Inr (Some existing) \<Rightarrow>
          (let rows = map (\<lambda>d. if deck_id d = deckId then set_deck data now d else d)
                        (decksTable s);
               returning = filter (\<lambda>d. deck_id d = deckId) rows
           in Inr (case returning of [] \<Rightarrow> None | updated # _ \<Rightarrow> Some updated,
                   s\<lparr>decksTable := rows\<rparr>)))"

text \<open>
  \<open>db.delete(decksTable).where(eq(decksTable.id, deckId))\<close>. The column
  \<open>cardsTable.deckId\<close> is declared
  \<open>references(() => decksTable.id, { onDelete: "cascade" })\<close>: the statement deletes,
  with each deck row, the card rows that reference it.
\<close>

definition delete_decks_where :: "(deck \<Rightarrow> bool) \<Rightarrow> db \<Rightarrow> db" where
  "delete_decks_where P s =
     (let deleted = filter P (decksTable s)
      in s\<lparr>decksTable := filter (\<lambda>d. \<not> P d) (decksTable s),
           cardsTable := filter (\<lambda>c. \<not> list_ex (\<lambda>d. deck_id d = card_deckId c) deleted)
                           (cardsTable s)\<rparr>)"

definition deleteDeckForUser :: "db \<Rightarrow> int \<Rightarrow> string \<Rightarrow> exn + db" where
  "deleteDeckForUser s deckId userId =
     (case getDeckById s deckId userId of
        Inl e \<Rightarrow> Inl e
      | Inr None \<Rightarrow> Inl (Error ''Deck not found or unauthorized'')
      | Inr (Some existing) \<Rightarrow> Inr (delete_decks_where (\<lambda>d. deck_id d = deckId) s))"

section \<open>Card queries (card-queries.ts)\<close>

text \<open>
  \<open>from(cardsTable).leftJoin(decksTable, eq(cardsTable.deckId, decksTable.id))\<close>: every
  card row with each deck row it matches, or with NULL when it matches none.
\<close>

definition leftJoin_decks :: "db \<Rightarrow> (card \<times> deck option) list" where
  "leftJoin_decks s =
     concat (map (\<lambda>c.
       (case filter (\<lambda>d. card_deckId c = deck_id d) (decksTable s) of
          [] \<Rightarrow> [(c, None)]
        | ds \<Rightarrow> map (\<lambda>d. (c, Some d)) ds)) (cardsTable s))"

definition deck_userId_eq :: "deck option \<Rightarrow> string \<Rightarrow> bool" where
  "deck_userId_eq d userId = (case d of None \<Rightarrow> False | Some x \<Rightarrow> deck_userId x = userId)"

text \<open>\<open>return result[0]?.card || null\<close>; the statement is refused when \<open>cardId\<close> is
  not a 32-bit integer.\<close>

definition getCardById :: "db \<Rightarrow> int \<Rightarrow> string \<Rightarrow> exn + card option" where
  "getCardById s cardId userId =
     (if int4 cardId
      then Inr (case filter (\<lambda>(c, d). card_id c = cardId \<and> deck_userId_eq d userId)
                       (leftJoin_decks s) of
                  [] \<Rightarrow> None
                | (c, d) # _ \<Rightarrow> Some c)
      else Inl out_of_range)"

record card_data =
  data_front :: string
  data_back :: string

definition createCardForDeck ::
  "db \<Rightarrow> int \<Rightarrow> string \<Rightarrow> card_data \<Rightarrow> nat \<Rightarrow> exn + (card option \<times> db)" where
  "createCardForDeck s deckId userId data now =
     (case getDeckById s deckId userId of
        Inl e \<Rightarrow> Inl e
      | Inr None \<Rightarrow> Inl (Error ''Deck not found or unauthorized'')
      | Inr (Some deck) \<Rightarrow>
          (let row = \<lparr>card_id = cards_id_seq s, card_deckId = deckId,
                       card_front = data_front data, card_back = data_back data,
                       card_createdAt = now, card_updatedAt = now\<rparr>;
               returning = [row]
           in Inr (case returning of [] \<Rightarrow> None | c # _ \<Rightarrow> Some c,
                   s\<lparr>cardsTable := cardsTable s @ [row], cards_id_seq := cards_id_seq s + 1\<rparr>)))"

definition set_card :: "card_data \<Rightarrow> nat \<Rightarrow> card \<Rightarrow> card" where
  "set_card data now c =
     c\<lparr>card_front := data_front data, card_back := data_back data, card_updatedAt := now\<rparr>"

definition updateCardForUser ::
  "db \<Rightarrow> int \<Rightarrow> string \<Rightarrow> card_data \<Rightarrow> nat \<Rightarrow> exn + (card option \<times> db)" where
  "updateCardForUser s cardId userId data now =
     (case getCardById s cardId userId of
        Inl e \<Rightarrow> Inl e
      | Inr None \<Rightarrow> Inl (Error ''Card not found or unauthorized'')
      | Inr (Some existing) \<Rightarrow>
          (let rows = map (\<lambda>c. if card_id c = cardId then set_card data now c else c)
                        (cardsTable s);
               returning = filter (\<lambda>c. card_id c = cardId) rows
           in Inr (case returning of [] \<Rightarrow> None | updated # _ \<Rightarrow> Some updated,
                   s\<lparr>cardsTable := rows\<rparr>)))"

text \<open>The function has no \<open>return\<close>: on success its value is \<open>undefined\<close>, and only the
  database is handed back.\<close>

definition deleteCardForUser :: "db \<Rightarrow> int \<Rightarrow> string \<Rightarrow> exn + db" where
  "deleteCardForUser s cardId userId =
     (case getCardById s cardId userId of
        Inl e \<Rightarrow> Inl e
      | Inr None \<Rightarrow> Inl (Error ''Card not found or unauthorized'')
      | Inr (Some existing) \<Rightarrow>
          Inr (s\<lparr>cardsTable := filter (\<lambda>c. card_id c \<noteq> cardId) (cardsTable s)\<rparr>))"

definition deleteAllCardsInDeck :: "db \<Rightarrow> int \<Rightarrow> string \<Rightarrow> exn + db" where
  "deleteAllCardsInDeck s deckId userId =
     (case getDeckById s deckId userId of
        Inl e \<Rightarrow> Inl e
      | Inr None \<Rightarrow> Inl (Error ''Deck not found or unauthorized'')
      | Inr (Some deck) \<Rightarrow>
          Inr (s\<lparr>cardsTable := filter (\<lambda>c. card_deckId c \<noteq> deckId) (cardsTable s)\<rparr>))"

section \<open>Study session (flashcard-study.tsx)\<close>

text \<open>
  The state of the component \<open>FlashcardStudy\<close>: its six \<open>useState\<close> cells. A
  \<open>CardData\<close> has the fields of a card row. \<open>currentIndex\<close> is an integer, since the
  handlers compare it with \<open>studyCards.length - 1\<close>, which is \<open>-1\<close> for an empty array.
\<close>

record study =
  currentIndex :: int
  isFlipped :: bool
  studyCards :: "card list"
  isShuffled :: bool
  correctCount :: nat
  incorrectCount :: nat

definition initial :: "card list \<Rightarrow> study" where
  "initial cards = \<lparr>currentIndex = 0, isFlipped = False, studyCards = cards,
                     isShuffled = False, correctCount = 0, incorrectCount = 0\<rparr>"

text \<open>\<open>setCurrentIndex\<close> together with the effect
  \<open>useEffect(() => { setIsFlipped(false) }, [currentIndex])\<close>, which runs when the index
  has changed.\<close>

definition setCurrentIndex :: "int \<Rightarrow> study \<Rightarrow> study" where
  "setCurrentIndex i s =
     (if i = currentIndex s then s else s\<lparr>currentIndex := i, isFlipped := False\<rparr>)"

definition handleFlip :: "study \<Rightarrow> study" where
  "handleFlip s = s\<lparr>isFlipped := \<not> isFlipped s\<rparr>"

definition handleNext :: "study \<Rightarrow> study" where
  "handleNext s =
     (if currentIndex s < int (length (studyCards s)) - 1
      then setCurrentIndex (currentIndex s + 1) s else s)"

definition handlePrevious :: "study \<Rightarrow> study" where
  "handlePrevious s =
     (if currentIndex s > 0 then setCurrentIndex (currentIndex s - 1) s else s)"

text \<open>\<open>shuffled\<close> is the array that \<open>[...studyCards].sort(() => Math.random() - 0.5)\<close>
  returned.\<close>

definition handleShuffle :: "card list \<Rightarrow> study \<Rightarrow> study" where
  "handleShuffle shuffled s =
     (let s1 = setCurrentIndex 0 (s\<lparr>studyCards := shuffled\<rparr>)
      in s1\<lparr>isFlipped := False, isShuffled := True, correctCount := 0, incorrectCount := 0\<rparr>)"

definition handleRestart :: "card list \<Rightarrow> study \<Rightarrow> study" where
  "handleRestart cards s =
     (let s1 = setCurrentIndex 0 (s\<lparr>studyCards := cards\<rparr>)
      in s1\<lparr>isFlipped := False, isShuffled := False, correctCount := 0, incorrectCount := 0\<rparr>)"

definition handleCorrect :: "study \<Rightarrow> study" where
  "handleCorrect s =
     (let s1 = s\<lparr>correctCount := correctCount s + 1\<rparr>
      in if currentIndex s < int (length (studyCards s)) - 1
         then setCurrentIndex (currentIndex s + 1) s1 else s1)"

definition handleIncorrect :: "study \<Rightarrow> study" where
  "handleIncorrect s =
     (let s1 = s\<lparr>incorrectCount := incorrectCount s + 1\<rparr>
      in if currentIndex s < int (length (studyCards s)) - 1
         then setCurrentIndex (currentIndex s + 1) s1 else s1)"

text \<open>
  What the user can do. \<open>Shuffle\<close> carries the outcome of the random sort. An event is
  \<open>possible\<close> in a state when the sort can have returned that array (it returns the
  elements it was given, in some order); it is \<open>offered\<close> when, moreover, the component
  renders the control: the Correct and Incorrect buttons are rendered only under
  \<open>isFlipped\<close>.
\<close>

datatype event = Flip | Next | Previous | Shuffle "card list" | Restart | Correct | Incorrect

fun step :: "card list \<Rightarrow> study \<Rightarrow> event \<Rightarrow> study" where
  "step cards s Flip = handleFlip s"
| "step cards s Next = handleNext s"
| "step cards s Previous = handlePrevious s"
| "step cards s (Shuffle shuffled) = handleShuffle shuffled s"
| "step cards s Restart = handleRestart cards s"
| "step cards s Correct = handleCorrect s"
| "step cards s Incorrect = handleIncorrect s"

fun possible :: "study \<Rightarrow> event \<Rightarrow> bool" where
  "possible s (Shuffle shuffled) = (mset shuffled = mset (studyCards s))"
| "possible s ev = True"

fun offered :: "study \<Rightarrow> event \<Rightarrow> bool" where
  "offered s Correct = isFlipped s"
| "offered s Incorrect = isFlipped s"
| "offered s ev = possible s ev"

fun run_from :: "card list \<Rightarrow> study \<Rightarrow> event list \<Rightarrow> study" where
  "run_from cards s [] = s"
| "run_from cards s (ev # evs) = run_from cards (step cards s ev) evs"

fun all_possible :: "card list \<Rightarrow> study \<Rightarrow> event list \<Rightarrow> bool" where
  "all_possible cards s [] = True"
| "all_possible cards s (ev # evs) = (possible s ev \<and> all_possible cards (step cards s ev) evs)"

fun all_offered :: "card list \<Rightarrow> study \<Rightarrow> event list \<Rightarrow> bool" where
  "all_offered cards s [] = True"
| "all_offered cards s (ev # evs) = (offered s ev \<and> all_offered cards (step cards s ev) evs)"

definition run :: "card list \<Rightarrow> event list \<Rightarrow> study" where
  "run cards evs = run_from cards (initial cards) evs"

text \<open>The number of Correct and Incorrect events after the last Shuffle or Restart.\<close>

fun marks_from :: "nat \<Rightarrow> event list \<Rightarrow> nat" where
  "marks_from n [] = n"
| "marks_from n (Correct # evs) = marks_from (n + 1) evs"
| "marks_from n (Incorrect # evs) = marks_from (n + 1) evs"
| "marks_from n (Shuffle shuffled # evs) = marks_from 0 evs"
| "marks_from n (Restart # evs) = marks_from 0 evs"
| "marks_from n (ev # evs) = marks_from n evs"

section \<open>Batch insert of cards\<close>

text \<open>
  Modelled from the spec: \<open>createCardsForDeck\<close>, which the generation action imports
  from the card queries, is not among the functions of that file. The specification
  describes it (createCards) as the batch variant of \<open>createCardForDeck\<close> with one
  ownership check on the deck and one bulk insert, all-or-nothing, failing when the deck
  is not owned. The rows take consecutive ids from the identity sequence.
\<close>

definition createCardsForDeck ::
  "db \<Rightarrow> int \<Rightarrow> string \<Rightarrow> card_data list \<Rightarrow> nat \<Rightarrow> exn + (card list \<times> db)" where
  "createCardsForDeck s deckId userId cards now =
     (case getDeckById s deckId userId of
        Inl e \<Rightarrow> Inl e
      | Inr None \<Rightarrow> Inl (Error ''Deck not found or unauthorized'')
      | Inr (Some deck) \<Rightarrow>
          (let rows = map (\<lambda>(i, data).
                        \<lparr>card_id = cards_id_seq s + int i, card_deckId = deckId,
                         card_front = data_front data, card_back = data_back data,
                         card_createdAt = now, card_updatedAt = now\<rparr>)
                        (enumerate 0 cards)
           in Inr (rows, s\<lparr>cardsTable := cardsTable s @ rows,
                            cards_id_seq := cards_id_seq s + int (length cards)\<rparr>)))"

text \<open>The database after the call of a query function: a call that throws has written
  nothing.\<close>

definition db_after :: "db \<Rightarrow> exn + ('a \<times> db) \<Rightarrow> db" where
  "db_after s r = (case r of Inl e \<Rightarrow> s | Inr (x, s') \<Rightarrow> s')"

section \<open>Validation schemas (zod)\<close>

text \<open>
  A check of a schema gives the messages of the issues it raises. \<open>parse\<close> returns the
  value when no check raises an issue and throws a \<open>ZodError\<close> with the issues otherwise;
  the issues come in the order of the schema's keys and checks. The identifiers are
  integers here, and the texts of the issues of checks that name no message are zod's own.
\<close>

definition z_min :: "nat \<Rightarrow> string \<Rightarrow> string \<Rightarrow> string list" where
  "z_min n message v = (if length v < n then [message] else [])"

definition z_max :: "nat \<Rightarrow> string \<Rightarrow> string \<Rightarrow> string list" where
  "z_max n message v = (if length v > n then [message] else [])"

definition z_positive :: "string \<Rightarrow> int \<Rightarrow> string list" where
  "z_positive message v = (if v > 0 then [] else [message])"

definition z_optional :: "('a \<Rightarrow> string list) \<Rightarrow> 'a option \<Rightarrow> string list" where
  "z_optional check v = (case v of None \<Rightarrow> [] | Some x \<Rightarrow> check x)"

definition zod_default_positive :: string where
  "zod_default_positive = ''Number must be greater than 0''"



definition parse :: "string list \<Rightarrow> 'a \<Rightarrow> exn + 'a" where
  "parse issues v = (case issues of [] \<Rightarrow> Inr v | m # ms \<Rightarrow> Inl (ZodError m ms))"

record update_deck_input =
  ud_id :: int
  ud_name :: string
  ud_description :: "string option"

record create_card_input =
  cc_deckId :: int
  cc_front :: string
  cc_back :: string

record update_card_input =
  uc_id :: int
  uc_front :: string
  uc_back :: string


definition createDeckSchema :: "deck_data \<Rightarrow> exn + deck_data" where
  "createDeckSchema input =
     parse (z_min 1 ''Deck name is required'' (data_name input)
            @ z_max 255 ''Deck name is too long'' (data_name input)
            @ z_optional (z_max 1000 ''Description is too long'') (data_description input))
       input"

definition updateDeckSchema :: "update_deck_input \<Rightarrow> exn + update_deck_input" where
  "updateDeckSchema input =
     parse (z_positive zod_default_positive (ud_id input)
            @ z_min 1 ''Deck name is required'' (ud_name input)
            @ z_max 255 ''Deck name is too long'' (ud_name input)
            @ z_optional (z_max 1000 ''Description is too long'') (ud_description input))
       input"

definition deleteDeckSchema :: "int \<Rightarrow> exn + int" where
  "deleteDeckSchema input = parse (z_positive zod_default_positive input) input"

definition createCardSchema :: "create_card_input \<Rightarrow> exn + create_card_input" where
  "createCardSchema input =
     parse (z_positive ''Deck ID is required'' (cc_deckId input)
            @ z_min 1 ''Question is required'' (cc_front input)
            @ z_max 1000 ''Question is too long'' (cc_front input)
            @ z_min 1 ''Answer is required'' (cc_back input)
            @ z_max 1000 ''Answer is too long'' (cc_back input))
       input"

definition updateCardSchema :: "update_card_input \<Rightarrow> exn + update_card_input" where
  "updateCardSchema input =
     parse (z_positive ''Card ID is required'' (uc_id input)
            @ z_min 1 ''Question is required'' (uc_front input)
            @ z_max 1000 ''Question is too long'' (uc_front input)
            @ z_min 1 ''Answer is required'' (uc_back input)
            @ z_max 1000 ''Answer is too long'' (uc_back input))
       input"

definition deleteCardSchema :: "int \<Rightarrow> exn + int" where
  "deleteCardSchema input = parse (z_positive ''Card ID is required'' input) input"




section \<open>Server actions\<close>

text \<open>
  \<open>auth()\<close> gives the user id, or null, and the feature test \<open>has\<close>. An action returns
  \<open>{success: true, data}\<close> or \<open>{success: false, error}\<close>; the model hands back, with it,
  the database the action leaves and the query functions it has called, in order.
\<close>

record auth =
  auth_userId :: "string option"
  auth_has :: "string \<Rightarrow> bool"

datatype 'a action_result = Success 'a | Failure string

datatype query =
    GetUserDeckCount | GetDeckById | CreateDeckForUser | UpdateDeckForUser | DeleteDeckForUser
  | CreateCardForDeck | CreateCardsForDeck | UpdateCardForUser | DeleteCardForUser

record 'a reply =
  result :: "'a action_result"
  store :: db
  queries :: "query list"

text \<open>\<open>if (!userId)\<close>: null and the empty string are falsy.\<close>

definition truthy_userId :: "auth \<Rightarrow> string option" where
  "truthy_userId a =
     (case auth_userId a of None \<Rightarrow> None | Some u \<Rightarrow> if u = [] then None else Some u)"

text \<open>The \<open>catch\<close> block of the deck and card actions: the first issue of a
  \<open>ZodError\<close>, the message of any other \<open>Error\<close> (a \<open>TypeError\<close> and the database's
  error are such).\<close>

definition catch_error :: "exn \<Rightarrow> string" where
  "catch_error e =
     (case e of ZodError m ms \<Rightarrow> m | Error m \<Rightarrow> m | TypeError m \<Rightarrow> m
              | DatabaseError m \<Rightarrow> m)"

text \<open>Reading \<open>.deckId\<close> of the value a query function returned; of \<open>undefined\<close> it
  throws.\<close>

definition read_deckId :: "card option \<Rightarrow> exn + int" where
  "read_deckId v =
     (case v of
        None \<Rightarrow> Inl (TypeError ''Cannot read properties of undefined (reading 'deckId')'')
      | Some c \<Rightarrow> Inr (card_deckId c))"

definition deck_limit_reached :: string where
  "deck_limit_reached = ''Deck limit reached. Upgrade to Pro for unlimited decks.''"

definition createDeck :: "auth \<Rightarrow> deck_data \<Rightarrow> nat \<Rightarrow> db \<Rightarrow> deck option reply" where
  "createDeck a input now s =
     (case truthy_userId a of
        None \<Rightarrow> \<lparr>result = Failure ''You must be logged in to create decks'',
                  store = s, queries = []\<rparr>
      | Some userId \<Rightarrow>
          (let hasUnlimitedDecks = auth_has a ''unlimited_decks'';
               counted = (if hasUnlimitedDecks then [] else [GetUserDeckCount])
           in if \<not> hasUnlimitedDecks \<and> getUserDeckCount s userId \<ge> 3
              then \<lparr>result = Failure deck_limit_reached, store = s, queries = counted\<rparr>
              else (case createDeckSchema input of
                      Inl e \<Rightarrow> \<lparr>result = Failure (catch_error e), store = s, queries = counted\<rparr>
                    | Inr validated \<Rightarrow>
                        (case createDeckForUser s userId
                                \<lparr>data_name = data_name validated,
                                 data_description = data_description validated\<rparr> now of
                           (deck, s') \<Rightarrow>
                             \<lparr>result = Success deck, store = s',
                              queries = counted @ [CreateDeckForUser]\<rparr>))))"

definition updateDeck :: "auth \<Rightarrow> update_deck_input \<Rightarrow> nat \<Rightarrow> db \<Rightarrow> deck option reply" where
  "updateDeck a input now s =
     (case truthy_userId a of
        None \<Rightarrow> \<lparr>result = Failure ''You must be logged in to update decks'',
                  store = s, queries = []\<rparr>
      | Some userId \<Rightarrow>
          (case updateDeckSchema input of
             Inl e \<Rightarrow> \<lparr>result = Failure (catch_error e), store = s, queries = []\<rparr>
           | Inr validated \<Rightarrow>
               (case updateDeckForUser s (ud_id validated) userId
                       \<lparr>data_name = ud_name validated,
                        data_description = ud_description validated\<rparr> now of
                  Inl e \<Rightarrow> \<lparr>result = Failure (catch_error e), store = s,
                            queries = [UpdateDeckForUser]\<rparr>
                | Inr (updated, s') \<Rightarrow>
                    \<lparr>result = Success updated, store = s', queries = [UpdateDeckForUser]\<rparr>)))"

definition deleteDeck :: "auth \<Rightarrow> int \<Rightarrow> db \<Rightarrow> unit reply" where
  "deleteDeck a input s =
     (case truthy_userId a of
        None \<Rightarrow> \<lparr>result = Failure ''You must be logged in to delete decks'',
                  store = s, queries = []\<rparr>
      | Some userId \<Rightarrow>
          (case deleteDeckSchema input of
             Inl e \<Rightarrow> \<lparr>result = Failure (catch_error e), store = s, queries = []\<rparr>
           | Inr validated \<Rightarrow>
               (case deleteDeckForUser s validated userId of
                  Inl e \<Rightarrow> \<lparr>result = Failure (catch_error e), store = s,
                            queries = [DeleteDeckForUser]\<rparr>
                | Inr s' \<Rightarrow> \<lparr>result = Success (), store = s', queries = [DeleteDeckForUser]\<rparr>)))"

definition createCard :: "auth \<Rightarrow> create_card_input \<Rightarrow> nat \<Rightarrow> db \<Rightarrow> card option reply" where
  "createCard a input now s =
     (case truthy_userId a of
        None \<Rightarrow> \<lparr>result = Failure ''You must be logged in to create cards'',
                  store = s, queries = []\<rparr>
      | Some userId \<Rightarrow>
          (case createCardSchema input of
             Inl e \<Rightarrow> \<lparr>result = Failure (catch_error e), store = s, queries = []\<rparr>
           | Inr validated \<Rightarrow>
               (case createCardForDeck s (cc_deckId validated) userId
                       \<lparr>data_front = cc_front validated, data_back = cc_back validated\<rparr> now of
                  Inl e \<Rightarrow> \<lparr>result = Failure (catch_error e), store = s,
                            queries = [CreateCardForDeck]\<rparr>
                | Inr (created, s') \<Rightarrow>
                    \<lparr>result = Success created, store = s', queries = [CreateCardForDeck]\<rparr>)))"

text \<open>After the update the action reads \<open>updated.deckId\<close> for the path to revalidate.\<close>

definition updateCard :: "auth \<Rightarrow> update_card_input \<Rightarrow> nat \<Rightarrow> db \<Rightarrow> card option reply" where
  "updateCard a input now s =
     (case truthy_userId a of
        None \<Rightarrow> \<lparr>result = Failure ''You must be logged in to update cards'',
                  store = s, queries = []\<rparr>
      | Some userId \<Rightarrow>
          (case updateCardSchema input of
             Inl e \<Rightarrow> \<lparr>result = Failure (catch_error e), store = s, queries = []\<rparr>
           | Inr validated \<Rightarrow>
               (case updateCardForUser s (uc_id validated) userId
                       \<lparr>data_front = uc_front validated, data_back = uc_back validated\<rparr> now of
                  Inl e \<Rightarrow> \<lparr>result = Failure (catch_error e), store = s,
                            queries = [UpdateCardForUser]\<rparr>
                | Inr (updated, s') \<Rightarrow>
                    (case read_deckId updated of
                       Inl e \<Rightarrow> \<lparr>result = Failure (catch_error e), store = s',
                                 queries = [UpdateCardForUser]\<rparr>
                     | Inr deckId \<Rightarrow>
                         \<lparr>result = Success updated, store = s',
                          queries = [UpdateCardForUser]\<rparr>))))"

text \<open>
  \<open>const deleted = await deleteCardForUser(validated.id, userId)\<close>: the function returns
  nothing, so \<open>deleted\<close> is \<open>undefined\<close>; the action then reads \<open>deleted.deckId\<close> for the
  path to revalidate, inside the \<open>try\<close> block.
\<close>

definition deleteCard :: "auth \<Rightarrow> int \<Rightarrow> db \<Rightarrow> unit reply" where
  "deleteCard a input s =
     (case truthy_userId a of
        None \<Rightarrow> \<lparr>result = Failure ''You must be logged in to delete cards'',
                  store = s, queries = []\<rparr>
      | Some userId \<Rightarrow>
          (case deleteCardSchema input of
             Inl e \<Rightarrow> \<lparr>result = Failure (catch_error e), store = s, queries = []\<rparr>
           | Inr validated \<Rightarrow>
               (case deleteCardForUser s validated userId of
                  Inl e \<Rightarrow> \<lparr>result = Failure (catch_error e), store = s,
                            queries = [DeleteCardForUser]\<rparr>
                | Inr s' \<Rightarrow>
                    (let deleted = (None :: card option)
                     in case read_deckId deleted of
                          Inl e \<Rightarrow> \<lparr>result = Failure (catch_error e), store = s',
                                    queries = [DeleteCardForUser]\<rparr>
                        | Inr deckId \<Rightarrow>
                            \<lparr>result = Success (), store = s',
                             queries = [DeleteCardForUser]\<rparr>))))"

text \<open>The dashboard page: \<open>const canCreateMore = hasUnlimitedDecks || deckCount < 3\<close>.\<close>

definition canCreateMore :: "bool \<Rightarrow> int \<Rightarrow> bool" where
  "canCreateMore hasUnlimitedDecks deckCount = (hasUnlimitedDecks \<or> deckCount < 3)"

section \<open>Card generation action\<close>








section \<open>Example data\<close>

text \<open>A database with two users: alice owns deck 1 (two cards) and deck 3 (no card),
  bob owns deck 2 (one card).\<close>

definition deckA :: deck where
  "deckA = \<lparr>deck_id = 1, deck_userId = ''alice'', deck_name = ''Indonesian'',
             deck_description = Some ''Basic words'', deck_createdAt = 10, deck_updatedAt = 10\<rparr>"

definition deckB :: deck where
  "deckB = \<lparr>deck_id = 2, deck_userId = ''bob'', deck_name = ''History'',
             deck_description = None, deck_createdAt = 20, deck_updatedAt = 20\<rparr>"

definition deckC :: deck where
  "deckC = \<lparr>deck_id = 3, deck_userId = ''alice'', deck_name = ''Empty'',
             deck_description = None, deck_createdAt = 30, deck_updatedAt = 30\<rparr>"

definition card1 :: card where
  "card1 = \<lparr>card_id = 1, card_deckId = 1, card_front = ''Dog'', card_back = ''Anjing'',
             card_createdAt = 11, card_updatedAt = 11\<rparr>"

definition card2 :: card where
  "card2 = \<lparr>card_id = 2, card_deckId = 1, card_front = ''Cat'', card_back = ''Kucing'',
             card_createdAt = 12, card_updatedAt = 12\<rparr>"

definition card3 :: card where
  "card3 = \<lparr>card_id = 3, card_deckId = 2, card_front = ''Hastings'', card_back = ''1066'',
             card_createdAt = 21, card_updatedAt = 21\<rparr>"

definition db0 :: db where
  "db0 = \<lparr>decksTable = [deckA, deckB, deckC], cardsTable = [card1, card2, card3],
           decks_id_seq = 4, cards_id_seq = 4\<rparr>"

lemmas example_rows = deckA_def deckB_def deckC_def card1_def card2_def card3_def

definition renameA :: deck_data where
  "renameA = \<lparr>data_name = ''Bahasa'', data_description = None\<rparr>"

definition rewrite2 :: card_data where
  "rewrite2 = \<lparr>data_front = ''Bird'', data_back = ''Burung''\<rparr>"

definition alice :: auth where
  "alice = \<lparr>auth_userId = Some ''alice'', auth_has = (\<lambda>feature. False)\<rparr>"

definition alice_pro :: auth where
  "alice_pro = \<lparr>auth_userId = Some ''alice'', auth_has = (\<lambda>feature. True)\<rparr>"

definition deckD :: deck where
  "deckD = \<lparr>deck_id = 4, deck_userId = ''alice'', deck_name = ''Plants'',
             deck_description = None, deck_createdAt = 40, deck_updatedAt = 40\<rparr>"

definition db3 :: db where
  "db3 = \<lparr>decksTable = [deckA, deckB, deckC, deckD], cardsTable = [card1, card2, card3],
           decks_id_seq = 5, cards_id_seq = 4\<rparr>"

definition no_name :: deck_data where
  "no_name = \<lparr>data_name = [], data_description = None\<rparr>"

definition blank_front :: card_data where
  "blank_front = \<lparr>data_front = [], data_back = ''Anjing''\<rparr>"



section \<open>Properties of the queries\<close>

lemma getDeckById_int4:
  "int4 deckId \<Longrightarrow> getDeckById s deckId userId =
     Inr (case filter (\<lambda>d. deck_id d = deckId \<and> deck_userId d = userId) (decksTable s) of
            [] \<Rightarrow> None | deck # _ \<Rightarrow> Some deck)"
  "\<not> int4 deckId \<Longrightarrow> getDeckById s deckId userId = Inl out_of_range"
  by (simp_all add: getDeckById_def)

lemma getDeckById_Inr_int4: "getDeckById s deckId userId = Inr r \<Longrightarrow> int4 deckId"
  by (simp add: getDeckById_def split: if_splits)

lemma getDeckById_Some_iff:
  "(\<exists>d. getDeckById s deckId userId = Inr (Some d)) \<longleftrightarrow>
   int4 deckId \<and> (\<exists>d \<in> set (decksTable s). deck_id d = deckId \<and> deck_userId d = userId)"
proof (cases "int4 deckId")
  case True
  let ?P = "\<lambda>d. deck_id d = deckId \<and> deck_userId d = userId"
  have "(\<exists>d. getDeckById s deckId userId = Inr (Some d)) \<longleftrightarrow> filter ?P (decksTable s) \<noteq> []"
    by (simp add: getDeckById_int4(1) [OF True] split: list.splits)
  also have "\<dots> \<longleftrightarrow> (\<exists>d \<in> set (decksTable s). ?P d)"
    by (simp add: filter_empty_conv)
  finally show ?thesis using True by simp
next
  case False
  then show ?thesis by (simp add: getDeckById_int4(2))
qed

lemma getDeckById_SomeD:
  assumes "getDeckById s deckId userId = Inr (Some d)"
  shows "d \<in> set (decksTable s)" and "deck_id d = deckId" and "deck_userId d = userId"
proof -
  let ?P = "\<lambda>d. deck_id d = deckId \<and> deck_userId d = userId"
  from assms have "int4 deckId" by (rule getDeckById_Inr_int4)
  with assms obtain ds where "filter ?P (decksTable s) = d # ds"
    by (auto simp: getDeckById_int4(1) split: list.splits)
  then have "d \<in> set (filter ?P (decksTable s))" by simp
  then show "d \<in> set (decksTable s)" and "deck_id d = deckId" and "deck_userId d = userId"
    by auto
qed

text \<open>
  For an id that is a 32-bit integer \<open>getDeckById\<close> does not throw, and it returns a deck
  exactly when the table holds a deck with that id owned by that user; the deck it
  returns is such a row, and a missing deck and another user's deck give the same null.
\<close>

lemma getDeckById_present_iff_owned:
  assumes "int4 deckId"
  shows "(\<exists>r. getDeckById s deckId userId = Inr r)
   \<and> (getDeckById s deckId userId \<noteq> Inr None \<longleftrightarrow>
      (\<exists>d \<in> set (decksTable s). deck_id d = deckId \<and> deck_userId d = userId))
   \<and> (\<forall>d. getDeckById s deckId userId = Inr (Some d) \<longrightarrow>
          d \<in> set (decksTable s) \<and> deck_id d = deckId \<and> deck_userId d = userId)
   \<and> ((\<forall>d \<in> set (decksTable s). deck_id d \<noteq> deckId)
          \<longrightarrow> getDeckById s deckId userId = Inr None)
   \<and> ((\<forall>d \<in> set (decksTable s). deck_id d = deckId \<longrightarrow> deck_userId d \<noteq> userId)
          \<longrightarrow> getDeckById s deckId userId = Inr None)"
proof -
  from assms obtain r where r: "getDeckById s deckId userId = Inr r"
    by (simp add: getDeckById_int4(1))
  have iff: "getDeckById s deckId userId \<noteq> Inr None \<longleftrightarrow>
      (\<exists>d \<in> set (decksTable s). deck_id d = deckId \<and> deck_userId d = userId)"
    using getDeckById_Some_iff [of s deckId userId] assms r by (cases r) auto
  have some: "\<forall>d. getDeckById s deckId userId = Inr (Some d) \<longrightarrow>
          d \<in> set (decksTable s) \<and> deck_id d = deckId \<and> deck_userId d = userId"
    using getDeckById_SomeD by blast
  from iff have missing:
    "(\<forall>d \<in> set (decksTable s). deck_id d \<noteq> deckId) \<longrightarrow> getDeckById s deckId userId = Inr None"
    by blast
  from iff have foreign:
    "(\<forall>d \<in> set (decksTable s). deck_id d = deckId \<longrightarrow> deck_userId d \<noteq> userId)
       \<longrightarrow> getDeckById s deckId userId = Inr None"
    by blast
  from r iff some missing foreign show ?thesis by blast
qed

lemma getDeckById_db0:
  "getDeckById db0 1 ''alice'' = Inr (Some deckA)"
  "getDeckById db0 1 ''bob'' = Inr None"
  "getDeckById db0 7 ''alice'' = Inr None"
  by (simp_all add: db0_def example_rows getDeckById_def int4_def)

text \<open>
  C1. \<open>getDeckById\<close> called with the id 2147483648, which the deck page passes on from
  the address \<open>/decks/2147483648\<close> (it is a number, and not NaN): no deck has this id,
  and the query does not return null, it throws the database's error. With ids in the
  32-bit range the same database gives alice's deck to alice and null for bob and for a
  missing deck.
\<close>

theorem getDeckById_out_of_range_throws:
  "getDeckById db0 2147483648 ''alice'' = Inl out_of_range
   \<and> list_all (\<lambda>d. deck_id d \<noteq> 2147483648) (decksTable db0)
   \<and> getDeckById db0 1 ''alice'' = Inr (Some deckA)
   \<and> getDeckById db0 1 ''bob'' = Inr None
   \<and> getDeckById db0 7 ''alice'' = Inr None"
proof -
  have "getDeckById db0 2147483648 ''alice'' = Inl out_of_range"
    by (simp add: getDeckById_def int4_def)
  moreover have "list_all (\<lambda>d. deck_id d \<noteq> 2147483648) (decksTable db0)"
    by (simp add: db0_def example_rows)
  ultimately show ?thesis using getDeckById_db0 by simp
qed

lemma leftJoin_row:
  "(case xs of [] \<Rightarrow> [(c, None)] | d # ds \<Rightarrow> map (\<lambda>d. (c, Some d)) (d # ds)) =
   (if xs = [] then [(c, None)] else map (\<lambda>d. (c, Some d)) xs)"
  by (cases xs) simp_all

lemma leftJoin_decks_Some:
  "(c, Some x) \<in> set (leftJoin_decks s) \<longleftrightarrow>
   c \<in> set (cardsTable s) \<and> x \<in> set (decksTable s) \<and> card_deckId c = deck_id x"
  unfolding leftJoin_decks_def leftJoin_row by (auto simp: filter_empty_conv)

lemma leftJoin_decks_fst:
  "(c, d) \<in> set (leftJoin_decks s) \<Longrightarrow> c \<in> set (cardsTable s)"
  unfolding leftJoin_decks_def leftJoin_row by (auto split: if_splits)

lemma getCardById_int4:
  "int4 cardId \<Longrightarrow> getCardById s cardId userId =
     Inr (case filter (\<lambda>(c, d). card_id c = cardId \<and> deck_userId_eq d userId)
                 (leftJoin_decks s) of
            [] \<Rightarrow> None | (c, d) # _ \<Rightarrow> Some c)"
  "\<not> int4 cardId \<Longrightarrow> getCardById s cardId userId = Inl out_of_range"
  by (simp_all add: getCardById_def)

lemma getCardById_Inr_int4: "getCardById s cardId userId = Inr r \<Longrightarrow> int4 cardId"
  by (simp add: getCardById_def split: if_splits)

lemma getCardById_SomeD:
  assumes "getCardById s cardId userId = Inr (Some c)"
  shows "c \<in> set (cardsTable s)" and "card_id c = cardId"
    and "\<exists>d \<in> set (decksTable s). deck_id d = card_deckId c \<and> deck_userId d = userId"
proof -
  let ?P = "\<lambda>(c, d). card_id c = cardId \<and> deck_userId_eq d userId"
  from assms have "int4 cardId" by (rule getCardById_Inr_int4)
  with assms obtain d rest where "filter ?P (leftJoin_decks s) = (c, d) # rest"
    by (auto simp: getCardById_int4(1) split: list.splits)
  then have "(c, d) \<in> set (filter ?P (leftJoin_decks s))" by simp
  then have mem: "(c, d) \<in> set (leftJoin_decks s)" and cid: "card_id c = cardId"
    and own: "deck_userId_eq d userId" by auto
  from own obtain x where d: "d = Some x" and ux: "deck_userId x = userId"
    by (auto simp: deck_userId_eq_def split: option.splits)
  from mem d have "c \<in> set (cardsTable s)" "x \<in> set (decksTable s)" "card_deckId c = deck_id x"
    by (simp_all add: leftJoin_decks_Some)
  with ux cid show "c \<in> set (cardsTable s)" and "card_id c = cardId"
    and "\<exists>d \<in> set (decksTable s). deck_id d = card_deckId c \<and> deck_userId d = userId"
    by auto
qed

lemma getCardById_Some_iff:
  "(\<exists>c. getCardById s cardId userId = Inr (Some c)) \<longleftrightarrow>
   int4 cardId \<and>
   (\<exists>c \<in> set (cardsTable s). card_id c = cardId \<and>
      (\<exists>d \<in> set (decksTable s). deck_id d = card_deckId c \<and> deck_userId d = userId))"
proof
  assume "\<exists>c. getCardById s cardId userId = Inr (Some c)"
  then show "int4 cardId \<and> (\<exists>c \<in> set (cardsTable s). card_id c = cardId \<and>
      (\<exists>d \<in> set (decksTable s). deck_id d = card_deckId c \<and> deck_userId d = userId))"
    using getCardById_SomeD getCardById_Inr_int4 by blast
next
  let ?P = "\<lambda>(c, d). card_id c = cardId \<and> deck_userId_eq d userId"
  assume r: "int4 cardId \<and> (\<exists>c \<in> set (cardsTable s). card_id c = cardId \<and>
      (\<exists>d \<in> set (decksTable s). deck_id d = card_deckId c \<and> deck_userId d = userId))"
  then obtain c d where "c \<in> set (cardsTable s)" "card_id c = cardId"
    "d \<in> set (decksTable s)" "deck_id d = card_deckId c" "deck_userId d = userId" by blast
  then have "(c, Some d) \<in> set (leftJoin_decks s)" "?P (c, Some d)"
    by (simp_all add: leftJoin_decks_Some deck_userId_eq_def)
  then have "(c, Some d) \<in> set (filter ?P (leftJoin_decks s))" by simp
  then have "filter ?P (leftJoin_decks s) \<noteq> []" by (metis empty_iff list.set(1))
  with r show "\<exists>c. getCardById s cardId userId = Inr (Some c)"
    by (auto simp: getCardById_int4(1) split: list.splits)
qed

lemma delete_decks_where_cards:
  assumes "d \<in> set (decksTable s)" and "deck_id d = deckId"
    and "c \<in> set (cardsTable (delete_decks_where (\<lambda>d. deck_id d = deckId) s))"
  shows "card_deckId c \<noteq> deckId"
  using assms by (auto simp: delete_decks_where_def list_ex_iff)

lemma delete_decks_where_decks:
  "d \<in> set (decksTable (delete_decks_where (\<lambda>d. deck_id d = deckId) s)) \<Longrightarrow> deck_id d \<noteq> deckId"
  by (auto simp: delete_decks_where_def)

text \<open>
  C2. When \<open>deleteDeckForUser\<close> is called by an owner of the deck it succeeds, and in
  the database it leaves no card row has the deleted deck's id as \<open>deckId\<close>: the deck
  is gone for every user, \<open>getDeckCards\<close> of that id is null for every user, and no card
  that \<open>getCardById\<close> returns to any user belongs to that deck.
\<close>

theorem deleteDeckForUser_cascade:
  assumes owner: "getDeckById s deckId userId = Inr (Some d)"
  shows "\<exists>s'. deleteDeckForUser s deckId userId = Inr s'
           \<and> (\<forall>c \<in> set (cardsTable s'). card_deckId c \<noteq> deckId)
           \<and> (\<forall>u. getDeckById s' deckId u = Inr None)
           \<and> (\<forall>u. getDeckCards s' deckId u = Inr None)
           \<and> (\<forall>cardId u c. getCardById s' cardId u = Inr (Some c) \<longrightarrow> card_deckId c \<noteq> deckId)"
proof -
  let ?s' = "delete_decks_where (\<lambda>d. deck_id d = deckId) s"
  from owner have del: "deleteDeckForUser s deckId userId = Inr ?s'"
    by (simp add: deleteDeckForUser_def)
  from owner have d: "d \<in> set (decksTable s)" "deck_id d = deckId"
    by (rule getDeckById_SomeD)+
  from owner have range: "int4 deckId" by (rule getDeckById_Inr_int4)
  have cards: "\<forall>c \<in> set (cardsTable ?s'). card_deckId c \<noteq> deckId"
    using delete_decks_where_cards [OF d] by blast
  have gone: "\<forall>u. getDeckById ?s' deckId u = Inr None"
  proof
    fix u
    from range obtain r where r: "getDeckById ?s' deckId u = Inr r"
      by (simp add: getDeckById_int4(1))
    show "getDeckById ?s' deckId u = Inr None"
    proof (cases r)
      case None
      with r show ?thesis by simp
    next
      case (Some x)
      with r have "x \<in> set (decksTable ?s')" "deck_id x = deckId"
        by (auto dest: getDeckById_SomeD)
      with delete_decks_where_decks show ?thesis by blast
    qed
  qed
  then have list: "\<forall>u. getDeckCards ?s' deckId u = Inr None"
    by (simp add: getDeckCards_def)
  have get: "\<forall>cardId u c. getCardById ?s' cardId u = Inr (Some c) \<longrightarrow> card_deckId c \<noteq> deckId"
    using getCardById_SomeD(1) cards by blast
  from del cards gone list get show ?thesis by blast
qed

lemma deleteDeck_db0: "deleteDeckForUser db0 1 ''alice'' =
   Inr \<lparr>decksTable = [deckB, deckC], cardsTable = [card3], decks_id_seq = 4, cards_id_seq = 4\<rparr>"
  by (simp add: deleteDeckForUser_def getDeckById_def int4_def delete_decks_where_def db0_def
      example_rows)

theorem deleteDeckForUser_cascade_witness:
  "getDeckById db0 1 ''alice'' = Inr (Some deckA)
   \<and> deleteDeckForUser db0 1 ''alice'' =
       Inr \<lparr>decksTable = [deckB, deckC], cardsTable = [card3], decks_id_seq = 4, cards_id_seq = 4\<rparr>
   \<and> (\<exists>s'. deleteDeckForUser db0 1 ''alice'' = Inr s'
          \<and> getDeckCards s' 1 ''alice'' = Inr None \<and> getCardById s' 1 ''alice'' = Inr None
          \<and> getCardById s' 2 ''alice'' = Inr None)"
proof -
  from deleteDeckForUser_cascade [OF getDeckById_db0(1)]
  obtain s' where s': "deleteDeckForUser db0 1 ''alice'' = Inr s'"
    and list: "getDeckCards s' 1 ''alice'' = Inr None"
    and get: "\<forall>cardId u c. getCardById s' cardId u = Inr (Some c) \<longrightarrow> card_deckId c \<noteq> 1"
    by blast
  from s' have eq: "s' = \<lparr>decksTable = [deckB, deckC], cardsTable = [card3],
                           decks_id_seq = 4, cards_id_seq = 4\<rparr>"
    by (simp add: deleteDeck_db0)
  have "getCardById s' 1 ''alice'' = Inr None" "getCardById s' 2 ''alice'' = Inr None"
    by (simp_all add: eq getCardById_def int4_def leftJoin_decks_def deck_userId_eq_def
        example_rows)
  with s' list getDeckById_db0(1) deleteDeck_db0 show ?thesis by simp
qed

lemma updateDeckForUser_frame:
  assumes "updateDeckForUser s deckId userId data now = Inr (r, s')"
  shows "map deck_id (decksTable s') = map deck_id (decksTable s)"
    and "map deck_userId (decksTable s') = map deck_userId (decksTable s)"
    and "map deck_createdAt (decksTable s') = map deck_createdAt (decksTable s)"
    and "cardsTable s' = cardsTable s"
    and "decksTable s' =
           map (\<lambda>d. if deck_id d = deckId then set_deck data now d else d) (decksTable s)"
proof -
  from assms have s': "s' = s\<lparr>decksTable :=
      map (\<lambda>d. if deck_id d = deckId then set_deck data now d else d) (decksTable s)\<rparr>"
    by (auto simp: updateDeckForUser_def Let_def split: sum.splits option.splits)
  show "map deck_id (decksTable s') = map deck_id (decksTable s)"
    by (simp add: s' set_deck_def comp_def if_distrib [of deck_id] cong: if_cong)
  show "map deck_userId (decksTable s') = map deck_userId (decksTable s)"
    by (simp add: s' set_deck_def comp_def if_distrib [of deck_userId] cong: if_cong)
  show "map deck_createdAt (decksTable s') = map deck_createdAt (decksTable s)"
    by (simp add: s' set_deck_def comp_def if_distrib [of deck_createdAt] cong: if_cong)
  show "cardsTable s' = cardsTable s" by (simp add: s')
  show "decksTable s' =
           map (\<lambda>d. if deck_id d = deckId then set_deck data now d else d) (decksTable s)"
    by (simp add: s')
qed

lemma filter_map_update:
  assumes "\<And>x. key (g x) = key x"
  shows "filter (\<lambda>x. key x = k) (map (\<lambda>x. if key x = k then g x else x) xs) =
         map g (filter (\<lambda>x. key x = k) xs)"
  using assms by (induction xs) auto

lemma updateDeckForUser_returned:
  assumes "updateDeckForUser s deckId userId data now = Inr (r, s')"
  shows "\<exists>old \<in> set (decksTable s). deck_id old = deckId \<and> r = Some (set_deck data now old)"
proof -
  let ?f = "\<lambda>d. if deck_id d = deckId then set_deck data now d else d"
  let ?hit = "filter (\<lambda>d. deck_id d = deckId) (decksTable s)"
  from assms obtain existing where ex: "getDeckById s deckId userId = Inr (Some existing)"
    by (auto simp: updateDeckForUser_def split: sum.splits option.splits)
  then have "existing \<in> set ?hit"
    using getDeckById_SomeD(1,2) [OF ex] by simp
  then obtain old rest where hit: "?hit = old # rest"
    by (cases ?hit) auto
  then have "old \<in> set ?hit" by simp
  then have old: "old \<in> set (decksTable s)" "deck_id old = deckId" by auto
  have "filter (\<lambda>d. deck_id d = deckId) (map ?f (decksTable s)) = map (set_deck data now) ?hit"
    by (rule filter_map_update) (simp add: set_deck_def)
  with assms ex hit have "r = Some (set_deck data now old)"
    by (simp add: updateDeckForUser_def Let_def)
  with old show ?thesis by blast
qed

lemma updateCardForUser_frame:
  assumes "updateCardForUser s cardId userId data now = Inr (r, s')"
  shows "map card_id (cardsTable s') = map card_id (cardsTable s)"
    and "map card_deckId (cardsTable s') = map card_deckId (cardsTable s)"
    and "map card_createdAt (cardsTable s') = map card_createdAt (cardsTable s)"
    and "decksTable s' = decksTable s"
    and "cardsTable s' =
           map (\<lambda>c. if card_id c = cardId then set_card data now c else c) (cardsTable s)"
proof -
  from assms have s': "s' = s\<lparr>cardsTable :=
      map (\<lambda>c. if card_id c = cardId then set_card data now c else c) (cardsTable s)\<rparr>"
    by (auto simp: updateCardForUser_def Let_def split: sum.splits option.splits)
  show "map card_id (cardsTable s') = map card_id (cardsTable s)"
    by (simp add: s' set_card_def comp_def if_distrib [of card_id] cong: if_cong)
  show "map card_deckId (cardsTable s') = map card_deckId (cardsTable s)"
    by (simp add: s' set_card_def comp_def if_distrib [of card_deckId] cong: if_cong)
  show "map card_createdAt (cardsTable s') = map card_createdAt (cardsTable s)"
    by (simp add: s' set_card_def comp_def if_distrib [of card_createdAt] cong: if_cong)
  show "decksTable s' = decksTable s" by (simp add: s')
  show "cardsTable s' =
           map (\<lambda>c. if card_id c = cardId then set_card data now c else c) (cardsTable s)"
    by (simp add: s')
qed

lemma updateCardForUser_returned:
  assumes "updateCardForUser s cardId userId data now = Inr (r, s')"
  shows "\<exists>old \<in> set (cardsTable s). card_id old = cardId \<and> r = Some (set_card data now old)"
proof -
  let ?f = "\<lambda>c. if card_id c = cardId then set_card data now c else c"
  let ?hit = "filter (\<lambda>c. card_id c = cardId) (cardsTable s)"
  from assms obtain existing where ex: "getCardById s cardId userId = Inr (Some existing)"
    by (auto simp: updateCardForUser_def split: sum.splits option.splits)
  then have "existing \<in> set ?hit"
    using getCardById_SomeD(1,2) [OF ex] by simp
  then obtain old rest where hit: "?hit = old # rest"
    by (cases ?hit) auto
  then have "old \<in> set ?hit" by simp
  then have old: "old \<in> set (cardsTable s)" "card_id old = cardId" by auto
  have "filter (\<lambda>c. card_id c = cardId) (map ?f (cardsTable s)) = map (set_card data now) ?hit"
    by (rule filter_map_update) (simp add: set_card_def)
  with assms ex hit have "r = Some (set_card data now old)"
    by (simp add: updateCardForUser_def Let_def)
  with old show ?thesis by blast
qed

text \<open>
  C10. A successful \<open>updateDeckForUser\<close> leaves, row by row, the \<open>id\<close>, \<open>userId\<close> and
  \<open>createdAt\<close> of every deck as they were, leaves the rows with another id and the whole
  card table untouched, and writes \<open>name\<close>, \<open>description\<close> (when one is given) and
  \<open>updatedAt\<close> of the rows with that id; a successful \<open>updateCardForUser\<close> leaves the
  \<open>id\<close>, \<open>deckId\<close> and \<open>createdAt\<close> of every card as they were, leaves the other cards
  and the whole deck table untouched, and writes \<open>front\<close>, \<open>back\<close> and \<open>updatedAt\<close>.
\<close>

theorem update_changes_only_content_fields:
  "(updateDeckForUser s deckId userId ddata now = Inr (rd, sd) \<longrightarrow>
      map deck_id (decksTable sd) = map deck_id (decksTable s)
    \<and> map deck_userId (decksTable sd) = map deck_userId (decksTable s)
    \<and> map deck_createdAt (decksTable sd) = map deck_createdAt (decksTable s)
    \<and> cardsTable sd = cardsTable s
    \<and> (\<forall>i < length (decksTable s).
          (deck_id (decksTable s ! i) \<noteq> deckId \<longrightarrow> decksTable sd ! i = decksTable s ! i)
        \<and> (deck_id (decksTable s ! i) = deckId \<longrightarrow>
             decksTable sd ! i = (decksTable s ! i)
               \<lparr>deck_name := data_name ddata,
                deck_description := (case data_description ddata of
                   None \<Rightarrow> deck_description (decksTable s ! i) | Some x \<Rightarrow> Some x),
                deck_updatedAt := now\<rparr>))
    \<and> (\<exists>old \<in> set (decksTable s). \<exists>new. rd = Some new
          \<and> deck_id new = deck_id old \<and> deck_id old = deckId
          \<and> deck_userId new = deck_userId old \<and> deck_createdAt new = deck_createdAt old
          \<and> deck_name new = data_name ddata \<and> deck_updatedAt new = now))
   \<and>
   (updateCardForUser s cardId userId cdata now = Inr (rc, sc) \<longrightarrow>
      map card_id (cardsTable sc) = map card_id (cardsTable s)
    \<and> map card_deckId (cardsTable sc) = map card_deckId (cardsTable s)
    \<and> map card_createdAt (cardsTable sc) = map card_createdAt (cardsTable s)
    \<and> decksTable sc = decksTable s
    \<and> (\<forall>i < length (cardsTable s).
          (card_id (cardsTable s ! i) \<noteq> cardId \<longrightarrow> cardsTable sc ! i = cardsTable s ! i)
        \<and> (card_id (cardsTable s ! i) = cardId \<longrightarrow>
             cardsTable sc ! i = (cardsTable s ! i)
               \<lparr>card_front := data_front cdata, card_back := data_back cdata,
                card_updatedAt := now\<rparr>))
    \<and> (\<exists>old \<in> set (cardsTable s). \<exists>new. rc = Some new
          \<and> card_id new = card_id old \<and> card_id old = cardId
          \<and> card_deckId new = card_deckId old \<and> card_createdAt new = card_createdAt old
          \<and> card_front new = data_front cdata \<and> card_back new = data_back cdata
          \<and> card_updatedAt new = now))"
proof (intro conjI impI)
  assume u: "updateDeckForUser s deckId userId ddata now = Inr (rd, sd)"
  note fr = updateDeckForUser_frame [OF u]
  show "map deck_id (decksTable sd) = map deck_id (decksTable s)" by (rule fr)
  show "map deck_userId (decksTable sd) = map deck_userId (decksTable s)" by (rule fr)
  show "map deck_createdAt (decksTable sd) = map deck_createdAt (decksTable s)" by (rule fr)
  show "cardsTable sd = cardsTable s" by (rule fr)
  show "\<forall>i < length (decksTable s).
          (deck_id (decksTable s ! i) \<noteq> deckId \<longrightarrow> decksTable sd ! i = decksTable s ! i)
        \<and> (deck_id (decksTable s ! i) = deckId \<longrightarrow>
             decksTable sd ! i = (decksTable s ! i)
               \<lparr>deck_name := data_name ddata,
                deck_description := (case data_description ddata of
                   None \<Rightarrow> deck_description (decksTable s ! i) | Some x \<Rightarrow> Some x),
                deck_updatedAt := now\<rparr>)"
    by (simp add: fr(5) set_deck_def)
  from updateDeckForUser_returned [OF u]
  show "\<exists>old \<in> set (decksTable s). \<exists>new. rd = Some new
          \<and> deck_id new = deck_id old \<and> deck_id old = deckId
          \<and> deck_userId new = deck_userId old \<and> deck_createdAt new = deck_createdAt old
          \<and> deck_name new = data_name ddata \<and> deck_updatedAt new = now"
    by (auto simp: set_deck_def)
next
  assume u: "updateCardForUser s cardId userId cdata now = Inr (rc, sc)"
  note fr = updateCardForUser_frame [OF u]
  show "map card_id (cardsTable sc) = map card_id (cardsTable s)" by (rule fr)
  show "map card_deckId (cardsTable sc) = map card_deckId (cardsTable s)" by (rule fr)
  show "map card_createdAt (cardsTable sc) = map card_createdAt (cardsTable s)" by (rule fr)
  show "decksTable sc = decksTable s" by (rule fr)
  show "\<forall>i < length (cardsTable s).
          (card_id (cardsTable s ! i) \<noteq> cardId \<longrightarrow> cardsTable sc ! i = cardsTable s ! i)
        \<and> (card_id (cardsTable s ! i) = cardId \<longrightarrow>
             cardsTable sc ! i = (cardsTable s ! i)
               \<lparr>card_front := data_front cdata, card_back := data_back cdata,
                card_updatedAt := now\<rparr>)"
    by (simp add: fr(5) set_card_def)
  from updateCardForUser_returned [OF u]
  show "\<exists>old \<in> set (cardsTable s). \<exists>new. rc = Some new
          \<and> card_id new = card_id old \<and> card_id old = cardId
          \<and> card_deckId new = card_deckId old \<and> card_createdAt new = card_createdAt old
          \<and> card_front new = data_front cdata \<and> card_back new = data_back cdata
          \<and> card_updatedAt new = now"
    by (auto simp: set_card_def)
qed

lemma updateDeck_db0:
  "updateDeckForUser db0 1 ''alice'' renameA 99 =
     Inr (Some (deckA\<lparr>deck_name := ''Bahasa'', deck_updatedAt := 99\<rparr>),
          db0\<lparr>decksTable := [deckA\<lparr>deck_name := ''Bahasa'', deck_updatedAt := 99\<rparr>, deckB, deckC]\<rparr>)"
  by (simp add: updateDeckForUser_def getDeckById_def int4_def set_deck_def renameA_def db0_def
      example_rows)

lemma updateCard_db0:
  "updateCardForUser db0 2 ''alice'' rewrite2 99 =
     Inr (Some (card2\<lparr>card_front := ''Bird'', card_back := ''Burung'', card_updatedAt := 99\<rparr>),
          db0\<lparr>cardsTable := [card1,
             card2\<lparr>card_front := ''Bird'', card_back := ''Burung'', card_updatedAt := 99\<rparr>, card3]\<rparr>)"
  by (simp add: updateCardForUser_def getCardById_def int4_def leftJoin_decks_def
      deck_userId_eq_def set_card_def rewrite2_def db0_def example_rows)

theorem update_changes_only_content_fields_witness:
  "(\<exists>rd sd. updateDeckForUser db0 1 ''alice'' renameA 99 = Inr (rd, sd)
       \<and> map deck_userId (decksTable sd) = [''alice'', ''bob'', ''alice'']
       \<and> map deck_id (decksTable sd) = [1, 2, 3]
       \<and> cardsTable sd = [card1, card2, card3])
   \<and> (\<exists>rc sc. updateCardForUser db0 2 ''alice'' rewrite2 99 = Inr (rc, sc)
       \<and> map card_deckId (cardsTable sc) = [1, 1, 2]
       \<and> map card_id (cardsTable sc) = [1, 2, 3]
       \<and> decksTable sc = [deckA, deckB, deckC])"
proof -
  let ?sd = "db0\<lparr>decksTable := [deckA\<lparr>deck_name := ''Bahasa'', deck_updatedAt := 99\<rparr>, deckB, deckC]\<rparr>"
  let ?sc = "db0\<lparr>cardsTable := [card1,
             card2\<lparr>card_front := ''Bird'', card_back := ''Burung'', card_updatedAt := 99\<rparr>, card3]\<rparr>"
  have old: "map deck_userId (decksTable db0) = [''alice'', ''bob'', ''alice'']"
    "map deck_id (decksTable db0) = [1, 2, 3]" "cardsTable db0 = [card1, card2, card3]"
    "map card_deckId (cardsTable db0) = [1, 1, 2]" "map card_id (cardsTable db0) = [1, 2, 3]"
    "decksTable db0 = [deckA, deckB, deckC]"
    by (simp_all add: db0_def example_rows)
  from update_changes_only_content_fields
    [of db0 1 "''alice''" renameA 99 _ ?sd 2 rewrite2 _ ?sc] updateDeck_db0 updateCard_db0
  have "map deck_userId (decksTable ?sd) = map deck_userId (decksTable db0)"
    "map deck_id (decksTable ?sd) = map deck_id (decksTable db0)"
    "cardsTable ?sd = cardsTable db0"
    "map card_deckId (cardsTable ?sc) = map card_deckId (cardsTable db0)"
    "map card_id (cardsTable ?sc) = map card_id (cardsTable db0)"
    "decksTable ?sc = decksTable db0"
    by blast+
  with old updateDeck_db0 updateCard_db0 show ?thesis by metis
qed

section \<open>Properties of the study session\<close>

lemmas handlers = handleFlip_def handleNext_def handlePrevious_def handleShuffle_def
  handleRestart_def handleCorrect_def handleIncorrect_def setCurrentIndex_def

lemma step_counts:
  "correctCount (step cards s ev) + incorrectCount (step cards s ev) =
     marks_from (correctCount s + incorrectCount s) [ev]"
  by (cases ev) (simp_all add: handlers Let_def)

lemma run_from_counts:
  "correctCount (run_from cards s evs) + incorrectCount (run_from cards s evs) =
     marks_from (correctCount s + incorrectCount s) evs"
proof (induction evs arbitrary: s)
  case Nil
  show ?case by simp
next
  case (Cons ev evs)
  have "marks_from (correctCount s + incorrectCount s) (ev # evs) =
        marks_from (marks_from (correctCount s + incorrectCount s) [ev]) evs"
    by (cases ev) simp_all
  with Cons [of "step cards s ev"] step_counts [of cards s ev] show ?case by simp
qed

lemma step_mset:
  assumes "mset (studyCards s) = mset cards" and "possible s ev"
  shows "mset (studyCards (step cards s ev)) = mset cards"
  using assms by (cases ev) (simp_all add: handlers Let_def)

lemma run_from_mset:
  assumes "mset (studyCards s) = mset cards" and "all_possible cards s evs"
  shows "mset (studyCards (run_from cards s evs)) = mset cards"
  using assms
proof (induction evs arbitrary: s)
  case Nil
  then show ?case by simp
next
  case (Cons ev evs)
  from Cons.prems have "mset (studyCards (step cards s ev)) = mset cards"
    by (simp add: step_mset)
  with Cons show ?case by simp
qed

lemma run_mset: "all_possible cards (initial cards) evs \<Longrightarrow> mset (studyCards (run cards evs)) = mset cards"
  unfolding run_def by (rule run_from_mset) (simp_all add: initial_def)

lemma all_offered_possible: "all_offered cards s evs \<Longrightarrow> all_possible cards s evs"
proof (induction evs arbitrary: s)
  case (Cons ev evs)
  then show ?case by (cases ev) simp_all
qed simp

text \<open>
  C8 (amended). The engine counts every mark: in the state after any sequence of
  events, \<open>correctCount + incorrectCount\<close> is the number of Correct and Incorrect events
  since the last Shuffle or Restart, and the array has the length of the snapshot. So
  the sum is at most the number of cards exactly on the runs with at most that many
  marks since the last reset.
\<close>

theorem counts_are_marks_since_reset:
  assumes "all_possible cards (initial cards) evs"
  shows "correctCount (run cards evs) + incorrectCount (run cards evs) = marks_from 0 evs
       \<and> length (studyCards (run cards evs)) = length cards
       \<and> (correctCount (run cards evs) + incorrectCount (run cards evs)
             \<le> length (studyCards (run cards evs))
           \<longleftrightarrow> marks_from 0 evs \<le> length cards)"
proof -
  have sum: "correctCount (run cards evs) + incorrectCount (run cards evs) = marks_from 0 evs"
    using run_from_counts [of cards "initial cards" evs] by (simp add: run_def initial_def)
  from assms have "mset (studyCards (run cards evs)) = mset cards" by (rule run_mset)
  then have len: "length (studyCards (run cards evs)) = length cards"
    by (rule mset_eq_length)
  from sum len show ?thesis by simp
qed

text \<open>
  C9. In every state that a sequence of possible events reaches, Shuffle leads to a state
  whose array holds the cards of the snapshot, each as often as the snapshot does (so the
  card ids are those of the snapshot), with \<open>currentIndex = 0\<close>, \<open>isFlipped = false\<close> and
  both counters 0.
\<close>

theorem handleShuffle_permutes_snapshot:
  assumes "all_possible cards (initial cards) evs"
    and "possible (run cards evs) (Shuffle shuffled)"
  shows "mset (studyCards (step cards (run cards evs) (Shuffle shuffled))) = mset cards
       \<and> mset (map card_id (studyCards (step cards (run cards evs) (Shuffle shuffled))))
           = mset (map card_id cards)
       \<and> set (map card_id (studyCards (step cards (run cards evs) (Shuffle shuffled))))
           = set (map card_id cards)
       \<and> currentIndex (step cards (run cards evs) (Shuffle shuffled)) = 0
       \<and> isFlipped (step cards (run cards evs) (Shuffle shuffled)) = False
       \<and> correctCount (step cards (run cards evs) (Shuffle shuffled)) = 0
       \<and> incorrectCount (step cards (run cards evs) (Shuffle shuffled)) = 0"
proof -
  let ?s' = "step cards (run cards evs) (Shuffle shuffled)"
  from assms(1) have "mset (studyCards (run cards evs)) = mset cards" by (rule run_mset)
  then have perm: "mset (studyCards ?s') = mset cards"
    using assms(2) by (rule step_mset)
  then have ids: "mset (map card_id (studyCards ?s')) = mset (map card_id cards)"
    by (metis mset_map)
  then have idset: "set (map card_id (studyCards ?s')) = set (map card_id cards)"
    by (rule mset_eq_setD)
  have reset: "currentIndex ?s' = 0" "isFlipped ?s' = False"
    "correctCount ?s' = 0" "incorrectCount ?s' = 0"
    by (simp_all add: handlers Let_def)
  from perm ids idset reset show ?thesis by blast
qed

lemma run_one_card:
  "run [card1] [Flip, Correct, Correct] =
     \<lparr>currentIndex = 0, isFlipped = True, studyCards = [card1], isShuffled = False,
      correctCount = 2, incorrectCount = 0\<rparr>"
  by (simp add: run_def initial_def handlers Let_def)

lemma offered_one_card:
  "all_offered [card1] (initial [card1]) [Flip, Correct, Correct]"
  by (simp add: initial_def handlers Let_def)

theorem counts_exceed_cards_counterexample:
  "all_offered [card1] (initial [card1]) [Flip, Correct, Correct]
   \<and> \<not> (correctCount (run [card1] [Flip, Correct, Correct])
          + incorrectCount (run [card1] [Flip, Correct, Correct])
        \<le> length (studyCards (run [card1] [Flip, Correct, Correct])))"
proof
  show "all_offered [card1] (initial [card1]) [Flip, Correct, Correct]"
    by (rule offered_one_card)
  show "\<not> (correctCount (run [card1] [Flip, Correct, Correct])
          + incorrectCount (run [card1] [Flip, Correct, Correct])
        \<le> length (studyCards (run [card1] [Flip, Correct, Correct])))"
    by (simp add: run_one_card)
qed

lemma possible_two_cards:
  "all_possible [card1, card2] (initial [card1, card2])
     [Flip, Correct, Shuffle [card2, card1], Flip, Incorrect]"
  by (simp add: initial_def handlers Let_def)

theorem counts_are_marks_since_reset_witness:
  "all_possible [card1, card2] (initial [card1, card2])
     [Flip, Correct, Shuffle [card2, card1], Flip, Incorrect]
   \<and> correctCount (run [card1, card2] [Flip, Correct, Shuffle [card2, card1], Flip, Incorrect])
     + incorrectCount (run [card1, card2] [Flip, Correct, Shuffle [card2, card1], Flip, Incorrect]) = 1
   \<and> length (studyCards (run [card1, card2] [Flip, Correct, Shuffle [card2, card1], Flip, Incorrect])) = 2"
proof -
  note ok = possible_two_cards
  have "marks_from 0 [Flip, Correct, Shuffle [card2, card1], Flip, Incorrect] = 1"
    by simp
  with counts_are_marks_since_reset [OF ok] ok show ?thesis by simp
qed

lemma possible_shuffle_two:
  "possible (run [card1, card2] [Flip, Correct]) (Shuffle [card2, card1])"
  by (simp add: run_def initial_def handlers Let_def)

lemma possible_prefix_two:
  "all_possible [card1, card2] (initial [card1, card2]) [Flip, Correct]"
  by (simp add: initial_def handlers Let_def)

theorem handleShuffle_permutes_snapshot_witness:
  "all_possible [card1, card2] (initial [card1, card2]) [Flip, Correct]
   \<and> possible (run [card1, card2] [Flip, Correct]) (Shuffle [card2, card1])
   \<and> studyCards (step [card1, card2] (run [card1, card2] [Flip, Correct]) (Shuffle [card2, card1]))
       = [card2, card1]
   \<and> mset (studyCards (step [card1, card2] (run [card1, card2] [Flip, Correct]) (Shuffle [card2, card1])))
       = mset [card1, card2]
   \<and> currentIndex (step [card1, card2] (run [card1, card2] [Flip, Correct]) (Shuffle [card2, card1])) = 0
   \<and> correctCount (run [card1, card2] [Flip, Correct]) = 1
   \<and> correctCount (step [card1, card2] (run [card1, card2] [Flip, Correct]) (Shuffle [card2, card1])) = 0"
proof -
  note sh = handleShuffle_permutes_snapshot [OF possible_prefix_two possible_shuffle_two]
  have a: "studyCards (step [card1, card2] (run [card1, card2] [Flip, Correct]) (Shuffle [card2, card1]))
       = [card2, card1]"
    by (simp add: handlers Let_def)
  have b: "correctCount (run [card1, card2] [Flip, Correct]) = 1"
    by (simp add: run_def initial_def handlers Let_def)
  from sh a b possible_prefix_two possible_shuffle_two
  show ?thesis by blast
qed

section \<open>Properties of the actions\<close>

lemma truthy_alice: "truthy_userId alice = Some ''alice''" "truthy_userId alice_pro = Some ''alice''"
  by (simp_all add: truthy_userId_def alice_def alice_pro_def)

lemma getCardById_db0:
  "getCardById db0 1 ''alice'' = Inr (Some card1)"
  "getCardById db0 3 ''alice'' = Inr None"
  by (simp_all add: getCardById_def int4_def leftJoin_decks_def deck_userId_eq_def db0_def
      example_rows)

lemma deleteCardSchema_positive: "0 < cardId \<Longrightarrow> deleteCardSchema cardId = Inr cardId"
  by (simp add: deleteCardSchema_def parse_def z_positive_def)

lemma deleteCard_owned:
  assumes "truthy_userId a = Some userId" and "0 < cardId"
    and "getCardById s cardId userId = Inr (Some c)"
  shows "deleteCard a cardId s =
           \<lparr>result = Failure ''Cannot read properties of undefined (reading 'deckId')'',
            store = s\<lparr>cardsTable := filter (\<lambda>c. card_id c \<noteq> cardId) (cardsTable s)\<rparr>,
            queries = [DeleteCardForUser]\<rparr>"
  using assms
  by (simp add: deleteCard_def deleteCardSchema_positive deleteCardForUser_def read_deckId_def
      catch_error_def)

lemma deleteCard_never_succeeds: "result (deleteCard a cardId s) \<noteq> Success ()"
  by (simp add: deleteCard_def deleteCardForUser_def read_deckId_def
      split: option.splits sum.splits)

text \<open>
  C3. The action \<open>deleteCard\<close>, called by alice for card 1 of her deck 1: the card is
  deleted from the table, and the action answers with a failure, the message of the
  \<open>TypeError\<close> that reading \<open>deleted.deckId\<close> throws.
\<close>

theorem deleteCard_owned_reports_failure:
  "getCardById db0 1 ''alice'' = Inr (Some card1)
   \<and> result (deleteCard alice 1 db0)
       = Failure ''Cannot read properties of undefined (reading 'deckId')''
   \<and> cardsTable (store (deleteCard alice 1 db0)) = [card2, card3]
   \<and> deleteCardForUser db0 1 ''alice'' = Inr (db0\<lparr>cardsTable := [card2, card3]\<rparr>)"
proof -
  have del: "deleteCard alice 1 db0 =
           \<lparr>result = Failure ''Cannot read properties of undefined (reading 'deckId')'',
            store = db0\<lparr>cardsTable := filter (\<lambda>c. card_id c \<noteq> 1) (cardsTable db0)\<rparr>,
            queries = [DeleteCardForUser]\<rparr>"
    by (rule deleteCard_owned [OF truthy_alice(1) _ getCardById_db0(1)]) simp
  have flt: "filter (\<lambda>c. card_id c \<noteq> 1) (cardsTable db0) = [card2, card3]"
    by (simp add: db0_def example_rows)
  have q: "deleteCardForUser db0 1 ''alice'' = Inr (db0\<lparr>cardsTable := [card2, card3]\<rparr>)"
    by (simp add: deleteCardForUser_def getCardById_db0 flt)
  from del flt q getCardById_db0(1) show ?thesis by simp
qed

lemma createDeck_invalid:
  assumes "truthy_userId a = Some userId" and "createDeckSchema input = Inl e"
  shows "createDeck a input now s =
           \<lparr>result = (if canCreateMore (auth_has a ''unlimited_decks'') (getUserDeckCount s userId)
                       then Failure (catch_error e) else Failure deck_limit_reached),
            store = s,
            queries = (if auth_has a ''unlimited_decks'' then [] else [GetUserDeckCount])\<rparr>"
  using assms by (simp add: createDeck_def canCreateMore_def Let_def not_less)

lemma updateDeck_invalid:
  assumes "truthy_userId a = Some userId" and "updateDeckSchema input = Inl e"
  shows "updateDeck a input now s = \<lparr>result = Failure (catch_error e), store = s, queries = []\<rparr>"
  using assms by (simp add: updateDeck_def)

lemma deleteDeck_invalid:
  assumes "truthy_userId a = Some userId" and "deleteDeckSchema input = Inl e"
  shows "deleteDeck a input s = \<lparr>result = Failure (catch_error e), store = s, queries = []\<rparr>"
  using assms by (simp add: deleteDeck_def)

lemma createCard_invalid:
  assumes "truthy_userId a = Some userId" and "createCardSchema input = Inl e"
  shows "createCard a input now s = \<lparr>result = Failure (catch_error e), store = s, queries = []\<rparr>"
  using assms by (simp add: createCard_def)

lemma updateCard_invalid:
  assumes "truthy_userId a = Some userId" and "updateCardSchema input = Inl e"
  shows "updateCard a input now s = \<lparr>result = Failure (catch_error e), store = s, queries = []\<rparr>"
  using assms by (simp add: updateCard_def)

lemma deleteCard_invalid:
  assumes "truthy_userId a = Some userId" and "deleteCardSchema input = Inl e"
  shows "deleteCard a input s = \<lparr>result = Failure (catch_error e), store = s, queries = []\<rparr>"
  using assms by (simp add: deleteCard_def)

lemma parse_Inr_iff: "parse issues v = Inr w \<longleftrightarrow> issues = [] \<and> w = v"
  by (auto simp: parse_def split: list.splits)

lemma parse_Inl_iff: "(\<exists>e. parse issues v = Inl e) \<longleftrightarrow> issues \<noteq> []"
  by (auto simp: parse_def split: list.splits)

lemmas z_checks = z_min_def z_max_def z_positive_def z_optional_def

lemma createDeckSchema_valid_iff:
  "createDeckSchema input = Inr input \<longleftrightarrow>
     1 \<le> length (data_name input) \<and> length (data_name input) \<le> 255 \<and>
     (case data_description input of None \<Rightarrow> True | Some d \<Rightarrow> length d \<le> 1000)"
  by (auto simp: createDeckSchema_def parse_Inr_iff z_checks Suc_le_eq split: option.splits)

lemma createCardSchema_valid_iff:
  "createCardSchema input = Inr input \<longleftrightarrow>
     0 < cc_deckId input \<and>
     1 \<le> length (cc_front input) \<and> length (cc_front input) \<le> 1000 \<and>
     1 \<le> length (cc_back input) \<and> length (cc_back input) \<le> 1000"
  by (auto simp: createCardSchema_def parse_Inr_iff z_checks Suc_le_eq)

lemma updateCardSchema_valid_iff:
  "updateCardSchema input = Inr input \<longleftrightarrow>
     0 < uc_id input \<and>
     1 \<le> length (uc_front input) \<and> length (uc_front input) \<le> 1000 \<and>
     1 \<le> length (uc_back input) \<and> length (uc_back input) \<le> 1000"
  by (auto simp: updateCardSchema_def parse_Inr_iff z_checks Suc_le_eq)

lemma updateDeckSchema_valid_iff:
  "updateDeckSchema input = Inr input \<longleftrightarrow>
     0 < ud_id input \<and>
     1 \<le> length (ud_name input) \<and> length (ud_name input) \<le> 255 \<and>
     (case ud_description input of None \<Rightarrow> True | Some d \<Rightarrow> length d \<le> 1000)"
  by (auto simp: updateDeckSchema_def parse_Inr_iff z_checks Suc_le_eq split: option.splits)

lemma schema_Inr_same:
  "createDeckSchema cd = Inr cd' \<Longrightarrow> cd' = cd"
  "updateDeckSchema ud = Inr ud' \<Longrightarrow> ud' = ud"
  "createCardSchema cc = Inr cc' \<Longrightarrow> cc' = cc"
  "updateCardSchema uc = Inr uc' \<Longrightarrow> uc' = uc"
  by (simp_all add: createDeckSchema_def updateDeckSchema_def createCardSchema_def
      updateCardSchema_def parse_Inr_iff)

text \<open>
  C4 (amended). For a caller who is logged in, \<open>updateDeck\<close>, \<open>deleteDeck\<close>,
  \<open>createCard\<close>, \<open>updateCard\<close> and \<open>deleteCard\<close> validate their input before they call
  any query function: on an input that the schema rejects they answer with the first
  issue's message, have called no query function and leave the database as it is.
  \<open>createDeck\<close> validates after its deck limit check: on a rejected input it inserts
  nothing and leaves the database as it is, but for a caller without the unlimited decks
  feature the deck count has been queried, and the answer is the deck limit message when
  that count is 3 or more and the first issue's message otherwise.
\<close>

theorem validation_precedes_queries:
  assumes "truthy_userId a = Some userId"
  shows "(updateDeckSchema ud = Inl e1 \<longrightarrow>
            updateDeck a ud now s = \<lparr>result = Failure (catch_error e1), store = s, queries = []\<rparr>)
       \<and> (deleteDeckSchema dd = Inl e2 \<longrightarrow>
            deleteDeck a dd s = \<lparr>result = Failure (catch_error e2), store = s, queries = []\<rparr>)
       \<and> (createCardSchema cc = Inl e3 \<longrightarrow>
            createCard a cc now s = \<lparr>result = Failure (catch_error e3), store = s, queries = []\<rparr>)
       \<and> (updateCardSchema uc = Inl e4 \<longrightarrow>
            updateCard a uc now s = \<lparr>result = Failure (catch_error e4), store = s, queries = []\<rparr>)
       \<and> (deleteCardSchema dc = Inl e5 \<longrightarrow>
            deleteCard a dc s = \<lparr>result = Failure (catch_error e5), store = s, queries = []\<rparr>)
       \<and> (createDeckSchema cd = Inl e6 \<longrightarrow>
            store (createDeck a cd now s) = s
          \<and> CreateDeckForUser \<notin> set (queries (createDeck a cd now s))
          \<and> queries (createDeck a cd now s) =
              (if auth_has a ''unlimited_decks'' then [] else [GetUserDeckCount])
          \<and> result (createDeck a cd now s) =
              (if auth_has a ''unlimited_decks'' \<or> getUserDeckCount s userId < 3
               then Failure (catch_error e6) else Failure deck_limit_reached))"
proof (intro conjI impI)
  assume "updateDeckSchema ud = Inl e1"
  with assms show "updateDeck a ud now s =
      \<lparr>result = Failure (catch_error e1), store = s, queries = []\<rparr>"
    by (rule updateDeck_invalid)
next
  assume "deleteDeckSchema dd = Inl e2"
  with assms show "deleteDeck a dd s =
      \<lparr>result = Failure (catch_error e2), store = s, queries = []\<rparr>"
    by (rule deleteDeck_invalid)
next
  assume "createCardSchema cc = Inl e3"
  with assms show "createCard a cc now s =
      \<lparr>result = Failure (catch_error e3), store = s, queries = []\<rparr>"
    by (rule createCard_invalid)
next
  assume "updateCardSchema uc = Inl e4"
  with assms show "updateCard a uc now s =
      \<lparr>result = Failure (catch_error e4), store = s, queries = []\<rparr>"
    by (rule updateCard_invalid)
next
  assume "deleteCardSchema dc = Inl e5"
  with assms show "deleteCard a dc s =
      \<lparr>result = Failure (catch_error e5), store = s, queries = []\<rparr>"
    by (rule deleteCard_invalid)
next
  assume bad: "createDeckSchema cd = Inl e6"
  note cd = createDeck_invalid [OF assms bad, of now s]
  show "store (createDeck a cd now s) = s" by (simp add: cd)
  show "CreateDeckForUser \<notin> set (queries (createDeck a cd now s))" by (simp add: cd)
  show "queries (createDeck a cd now s) =
              (if auth_has a ''unlimited_decks'' then [] else [GetUserDeckCount])"
    by (simp add: cd)
  show "result (createDeck a cd now s) =
              (if auth_has a ''unlimited_decks'' \<or> getUserDeckCount s userId < 3
               then Failure (catch_error e6) else Failure deck_limit_reached)"
    by (simp add: cd canCreateMore_def)
qed

lemma no_name_rejected: "createDeckSchema no_name = Inl (ZodError ''Deck name is required'' [])"
  by (simp add: createDeckSchema_def no_name_def parse_def z_checks)

lemma deck_counts: "getUserDeckCount db3 ''alice'' = 3" "getUserDeckCount db0 ''alice'' = 2"
  by (simp_all add: getUserDeckCount_def db3_def db0_def example_rows deckD_def)

lemma alice_has: "auth_has alice f = False" "auth_has alice_pro f = True"
  by (simp_all add: alice_def alice_pro_def)

theorem createDeck_counts_before_validating_counterexample:
  "createDeckSchema no_name = Inl (ZodError ''Deck name is required'' [])
   \<and> queries (createDeck alice no_name 50 db0) = [GetUserDeckCount]
   \<and> result (createDeck alice no_name 50 db0) = Failure ''Deck name is required''
   \<and> queries (createDeck alice no_name 50 db3) = [GetUserDeckCount]
   \<and> result (createDeck alice no_name 50 db3) = Failure deck_limit_reached
   \<and> deck_limit_reached \<noteq> ''Deck name is required''"
proof -
  note a = createDeck_invalid [OF truthy_alice(1) no_name_rejected, of 50 db0]
  note b = createDeck_invalid [OF truthy_alice(1) no_name_rejected, of 50 db3]
  have "deck_limit_reached \<noteq> ''Deck name is required''"
    by (simp add: deck_limit_reached_def)
  then show ?thesis
    by (simp add: a b no_name_rejected alice_has deck_counts canCreateMore_def catch_error_def)
qed

theorem validation_precedes_queries_witness:
  "truthy_userId alice = Some ''alice''
   \<and> createCardSchema \<lparr>cc_deckId = 1, cc_front = [], cc_back = ''Anjing''\<rparr>
       = Inl (ZodError ''Question is required'' [])
   \<and> createCard alice \<lparr>cc_deckId = 1, cc_front = [], cc_back = ''Anjing''\<rparr> 50 db0
       = \<lparr>result = Failure ''Question is required'', store = db0, queries = []\<rparr>
   \<and> createDeckSchema no_name = Inl (ZodError ''Deck name is required'' [])
   \<and> store (createDeck alice no_name 50 db3) = db3
   \<and> result (createDeck alice_pro no_name 50 db3) = Failure ''Deck name is required''
   \<and> queries (createDeck alice_pro no_name 50 db3) = []"
proof -
  let ?cc = "\<lparr>cc_deckId = 1, cc_front = [], cc_back = ''Anjing''\<rparr>"
  have cc: "createCardSchema ?cc = Inl (ZodError ''Question is required'' [])"
    by (simp add: createCardSchema_def parse_def z_checks)
  from validation_precedes_queries [OF truthy_alice(1), of _ _ 50 db0 _ _ ?cc] cc
  have 1: "createCard alice ?cc 50 db0
       = \<lparr>result = Failure ''Question is required'', store = db0, queries = []\<rparr>"
    by (simp add: catch_error_def)
  from validation_precedes_queries [OF truthy_alice(1), of _ _ 50 db3 _ _ _ _ _ _ _ _ no_name]
    no_name_rejected
  have 2: "store (createDeck alice no_name 50 db3) = db3" by blast
  from validation_precedes_queries [OF truthy_alice(2), of _ _ 50 db3 _ _ _ _ _ _ _ _ no_name]
    no_name_rejected
  have 3: "result (createDeck alice_pro no_name 50 db3) = Failure ''Deck name is required''"
    "queries (createDeck alice_pro no_name 50 db3) = []"
    by (simp_all add: alice_has catch_error_def)
  from cc 1 2 3 no_name_rejected truthy_alice(1) show ?thesis by simp
qed

lemma createDeckSchema_messages:
  assumes "createDeckSchema input = Inl e"
  shows "catch_error e \<in> {''Deck name is required'', ''Deck name is too long'',
                           ''Description is too long''}"
  using assms
  by (auto simp: createDeckSchema_def parse_def z_checks catch_error_def
      split: list.splits option.splits if_splits)

lemma createDeck_limit_iff:
  assumes "truthy_userId a = Some userId"
  shows "result (createDeck a input now s) = Failure deck_limit_reached \<longleftrightarrow>
         \<not> canCreateMore (auth_has a ''unlimited_decks'') (getUserDeckCount s userId)"
proof (cases "canCreateMore (auth_has a ''unlimited_decks'') (getUserDeckCount s userId)")
  case False
  with assms show ?thesis
    by (simp add: createDeck_def canCreateMore_def Let_def not_less)
next
  case True
  then have passes: "\<not> (\<not> auth_has a ''unlimited_decks'' \<and> 3 \<le> getUserDeckCount s userId)"
    by (auto simp: canCreateMore_def)
  show ?thesis
  proof (cases "createDeckSchema input")
    case (Inl e)
    from createDeckSchema_messages [OF Inl] have "catch_error e \<noteq> deck_limit_reached"
      by (auto simp: deck_limit_reached_def)
    with assms passes Inl True show ?thesis
      by (simp add: createDeck_def Let_def)
  next
    case (Inr validated)
    with assms passes True show ?thesis
      by (simp add: createDeck_def Let_def split: prod.splits)
  qed
qed

text \<open>
  C5. The quota decision \<open>hasUnlimitedDecks || deckCount < 3\<close> of the dashboard is true
  exactly when the entitlement holds or the count is below 3: false at 3 without
  entitlement, true at 2 without it, true at 99 with it. The deck limit check of \<open>createDeck\<close>
  agrees with it: for a caller who is logged in, the action answers with the deck limit
  message exactly when the decision, taken on the caller's deck count, is false; and the
  count of the dashboard (the length of \<open>getUserDecks\<close>) is \<open>getUserDeckCount\<close>.
\<close>

theorem canCreateMore_iff_entitled_or_below_3:
  "(canCreateMore e n \<longleftrightarrow> e \<or> n < 3)
   \<and> canCreateMore False 3 = False
   \<and> canCreateMore False 2 = True
   \<and> canCreateMore True 99 = True
   \<and> (truthy_userId a = Some userId \<longrightarrow>
        (result (createDeck a input now s) = Failure deck_limit_reached \<longleftrightarrow>
         \<not> canCreateMore (auth_has a ''unlimited_decks'') (getUserDeckCount s userId)))
   \<and> int (length (getUserDecks s userId)) = getUserDeckCount s userId"
proof (intro conjI impI)
  show "canCreateMore e n \<longleftrightarrow> e \<or> n < 3" by (simp add: canCreateMore_def)
  show "canCreateMore False 3 = False" by (simp add: canCreateMore_def)
  show "canCreateMore False 2 = True" by (simp add: canCreateMore_def)
  show "canCreateMore True 99 = True" by (simp add: canCreateMore_def)
  show "int (length (getUserDecks s userId)) = getUserDeckCount s userId"
    by (simp add: getUserDecks_def getUserDeckCount_def)
next
  assume "truthy_userId a = Some userId"
  then show "result (createDeck a input now s) = Failure deck_limit_reached \<longleftrightarrow>
         \<not> canCreateMore (auth_has a ''unlimited_decks'') (getUserDeckCount s userId)"
    by (rule createDeck_limit_iff)
qed

theorem canCreateMore_iff_entitled_or_below_3_witness:
  "truthy_userId alice = Some ''alice''
   \<and> getUserDeckCount db3 ''alice'' = 3
   \<and> canCreateMore (auth_has alice ''unlimited_decks'') (getUserDeckCount db3 ''alice'') = False
   \<and> result (createDeck alice \<lparr>data_name = ''Birds'', data_description = None\<rparr> 50 db3)
       = Failure deck_limit_reached
   \<and> canCreateMore (auth_has alice ''unlimited_decks'') (getUserDeckCount db0 ''alice'') = True
   \<and> result (createDeck alice \<lparr>data_name = ''Birds'', data_description = None\<rparr> 50 db0)
       \<noteq> Failure deck_limit_reached"
proof -
  let ?input = "\<lparr>data_name = ''Birds'', data_description = None\<rparr>"
  have no: "canCreateMore (auth_has alice ''unlimited_decks'') (getUserDeckCount db3 ''alice'') = False"
    and yes: "canCreateMore (auth_has alice ''unlimited_decks'') (getUserDeckCount db0 ''alice'') = True"
    by (simp_all add: canCreateMore_def alice_has deck_counts)
  from canCreateMore_iff_entitled_or_below_3 [of _ _ alice "''alice''" ?input 50 db3]
    truthy_alice(1) no
  have 1: "result (createDeck alice ?input 50 db3) = Failure deck_limit_reached" by simp
  from canCreateMore_iff_entitled_or_below_3 [of _ _ alice "''alice''" ?input 50 db0]
    truthy_alice(1) yes
  have 2: "result (createDeck alice ?input 50 db0) \<noteq> Failure deck_limit_reached" by simp
  from 1 2 no yes truthy_alice(1) deck_counts(1) show ?thesis by simp
qed

lemma map_enumerate_snd: "map (\<lambda>(i, x). f x) (enumerate n xs) = map f xs"
  by (induction xs arbitrary: n) simp_all

lemma createCardsForDeck_owned:
  assumes "getDeckById s deckId userId = Inr (Some deck)"
  shows "\<exists>created. createCardsForDeck s deckId userId cards now =
             Inr (created, s\<lparr>cardsTable := cardsTable s @ created,
                              cards_id_seq := cards_id_seq s + int (length cards)\<rparr>)
           \<and> length created = length cards
           \<and> map card_front created = map data_front cards
           \<and> map card_back created = map data_back cards
           \<and> list_all (\<lambda>c. card_deckId c = deckId) created"
proof -
  let ?row = "\<lambda>(i, data). \<lparr>card_id = cards_id_seq s + int i, card_deckId = deckId,
                         card_front = data_front data, card_back = data_back data,
                         card_createdAt = now, card_updatedAt = now\<rparr>"
  let ?rows = "map ?row (enumerate 0 cards)"
  from assms have call: "createCardsForDeck s deckId userId cards now =
      Inr (?rows, s\<lparr>cardsTable := cardsTable s @ ?rows,
                      cards_id_seq := cards_id_seq s + int (length cards)\<rparr>)"
    by (simp add: createCardsForDeck_def Let_def)
  have len: "length ?rows = length cards" by simp
  have "map card_front ?rows = map (\<lambda>(i, x). data_front x) (enumerate 0 cards)"
    by (simp add: case_prod_beta)
  then have fronts: "map card_front ?rows = map data_front cards"
    by (simp only: map_enumerate_snd)
  have "map card_back ?rows = map (\<lambda>(i, x). data_back x) (enumerate 0 cards)"
    by (simp add: case_prod_beta)
  then have backs: "map card_back ?rows = map data_back cards"
    by (simp only: map_enumerate_snd)
  have deck: "list_all (\<lambda>c. card_deckId c = deckId) ?rows"
    by (simp add: list_all_iff case_prod_beta)
  from call len fronts backs deck show ?thesis by blast
qed

text \<open>
  C7. \<open>createCardsForDeck\<close> checks the ownership of the deck once and inserts once.
  Either the deck is not the caller's, the call throws and the database is as before; or
  the call returns the created rows, the card table is the old one followed by exactly
  these rows, there is one row for each candidate, in order, with the candidate's front
  and back and the given \<open>deckId\<close>, and the deck table is as before. No part of a batch
  is persisted alone.
\<close>

theorem createCardsForDeck_all_or_nothing:
  "(\<exists>e. getDeckById s deckId userId = Inl e
      \<and> createCardsForDeck s deckId userId cards now = Inl e
      \<and> db_after s (createCardsForDeck s deckId userId cards now) = s)
   \<or> (getDeckById s deckId userId = Inr None
      \<and> createCardsForDeck s deckId userId cards now = Inl (Error ''Deck not found or unauthorized'')
      \<and> db_after s (createCardsForDeck s deckId userId cards now) = s)
   \<or> (\<exists>deck. getDeckById s deckId userId = Inr (Some deck)
      \<and> (\<exists>created s'. createCardsForDeck s deckId userId cards now = Inr (created, s')
            \<and> db_after s (createCardsForDeck s deckId userId cards now) = s'
            \<and> cardsTable s' = cardsTable s @ created
            \<and> decksTable s' = decksTable s
            \<and> length created = length cards
            \<and> map card_front created = map data_front cards
            \<and> map card_back created = map data_back cards
            \<and> list_all (\<lambda>c. card_deckId c = deckId) created))"
proof (cases "getDeckById s deckId userId")
  case (Inl e)
  then show ?thesis by (simp add: createCardsForDeck_def db_after_def)
next
  case (Inr r)
  show ?thesis
  proof (cases r)
    case None
    with Inr show ?thesis by (simp add: createCardsForDeck_def db_after_def)
  next
    case (Some deck)
    with Inr have owned: "getDeckById s deckId userId = Inr (Some deck)" by simp
    from createCardsForDeck_owned [OF owned, of cards now]
    obtain created where c: "createCardsForDeck s deckId userId cards now =
               Inr (created, s\<lparr>cardsTable := cardsTable s @ created,
                                cards_id_seq := cards_id_seq s + int (length cards)\<rparr>)"
      "length created = length cards" "map card_front created = map data_front cards"
      "map card_back created = map data_back cards"
      "list_all (\<lambda>c. card_deckId c = deckId) created"
      by blast
    let ?s' = "s\<lparr>cardsTable := cardsTable s @ created,
                  cards_id_seq := cards_id_seq s + int (length cards)\<rparr>"
    have "db_after s (createCardsForDeck s deckId userId cards now) = ?s'"
      by (simp add: c(1) db_after_def)
    moreover have "cardsTable ?s' = cardsTable s @ created" "decksTable ?s' = decksTable s"
      by simp_all
    ultimately show ?thesis using owned c by blast
  qed
qed









theorem createCardsForDeck_all_or_nothing_witness:
  "getDeckById db0 1 ''bob'' = Inr None
   \<and> createCardsForDeck db0 1 ''bob'' [blank_front, blank_front] 50
       = Inl (Error ''Deck not found or unauthorized'')
   \<and> getDeckById db0 1 ''alice'' = Inr (Some deckA)
   \<and> (\<exists>created s'. createCardsForDeck db0 1 ''alice'' [blank_front, blank_front] 50
          = Inr (created, s')
        \<and> cardsTable s' = cardsTable db0 @ created \<and> length created = 2)"
proof -
  from createCardsForDeck_all_or_nothing [of db0 1 "''bob''" "[blank_front, blank_front]" 50]
  have 1: "createCardsForDeck db0 1 ''bob'' [blank_front, blank_front] 50
       = Inl (Error ''Deck not found or unauthorized'')"
    by (simp add: getDeckById_db0(2))
  from createCardsForDeck_all_or_nothing [of db0 1 "''alice''" "[blank_front, blank_front]" 50]
  have "\<exists>created s'. createCardsForDeck db0 1 ''alice'' [blank_front, blank_front] 50
          = Inr (created, s')
        \<and> cardsTable s' = cardsTable db0 @ created
        \<and> length created = length [blank_front, blank_front]"
    by (simp add: getDeckById_db0(1)) blast
  then have 2: "\<exists>created s'. createCardsForDeck db0 1 ''alice'' [blank_front, blank_front] 50
          = Inr (created, s')
        \<and> cardsTable s' = cardsTable db0 @ created \<and> length created = 2"
    by (simp add: numeral_2_eq_2)
  from 1 2 getDeckById_db0(1,2) show ?thesis by blast
qed

end
